theory Spec2Isabelle
  imports Main "HOL-Library.Word"
begin

section \<open>Data model (prisma/schema.prisma)\<close>

text \<open>
  A point in time is the number of milliseconds since the epoch, as \<^verbatim>\<open>Date.now()\<close>
  gives it. The two tables are lists of rows in insertion order; the two counters stand
  for the \<^verbatim>\<open>autoincrement()\<close> sequences of the primary keys.
\<close>

type_synonym datetime = int

record user =
  user_id :: int
  email :: string
  username :: string
  password :: string
  passwordResetToken :: "string option"
  passwordResetTokenExpiry :: "datetime option"

record post =
  post_id :: int
  title :: string
  body :: "string option"
  created_by :: int
  created_at :: datetime

record db =
  users :: "user list"
  posts :: "post list"
  user_seq :: int
  post_seq :: int

text \<open>The projection \<^verbatim>\<open>select: {id: true, username: true, email: true}\<close>.\<close>

record identity =
  ident_id :: int
  ident_username :: string
  ident_email :: string

section \<open>JavaScript values, exceptions and the effects of a handler\<close>

text \<open>
  A field of a request body is a string or absent (\<^verbatim>\<open>undefined\<close>): \<open>None\<close> is the
  absent field. A value is falsy when it is absent or the empty string.
\<close>

definition falsy :: "string option \<Rightarrow> bool" where
  "falsy v = (case v of None \<Rightarrow> True | Some s \<Rightarrow> s = [])"

datatype json = JNull | JNum int | JStr string | JObj "(string \<times> json) list"

fun keys :: "json \<Rightarrow> string list" where
  "keys (JObj kvs) = map fst kvs"
| "keys _ = []"

datatype exn =
    PrismaKnownRequestError string
  | PrismaValidationError
  | PrismaValueOutOfRange
  | TypeError
  | BcryptIllegalArguments
  | JsonWebTokenError string
  | TokenExpiredError
  | MailError

text \<open>
  What a controller does with a request: it answers with \<^verbatim>\<open>res.status(s).json(b)\<close>
  (the body is \<open>None\<close> when \<^verbatim>\<open>b\<close> is \<^verbatim>\<open>undefined\<close>), it hands an error with a
  status and a message to \<^verbatim>\<open>next\<close>, it does neither (every exception was caught and
  only logged), or its promise rejects with an exception nobody catches.
\<close>

datatype outcome =
    Json nat "json option"
  | NextError nat string
  | NoResponse
  | Rejected exn

section \<open>Collaborators: configuration, libraries, and what a request reads from outside\<close>

text \<open>
  Modelled from the spec: the \<^verbatim>\<open>jsonwebtoken\<close> package (\<^verbatim>\<open>jwt.sign\<close>,
  \<^verbatim>\<open>jwt.verify\<close>) is not among the sources. This is the decoded form of the bearer
  token, the signed, self-contained credential of the token service: the user
  identifier, the issued-at and the expiry instants in seconds, and a signature over the
  three under the server's secret.
\<close>

record jwt =
  jwt_id :: int
  jwt_iat :: int
  jwt_exp :: int
  jwt_sig :: string

text \<open>
  \<open>env\<close> holds what is fixed for the server: \<^verbatim>\<open>process.env.JWT_SECRET\<close>, the
  builtin \<^verbatim>\<open>parseInt\<close>, whose result is a number or \<^verbatim>\<open>NaN\<close> (\<open>None\<close>), and the
  functions of the imported libraries. The model leaves them open: the password hash of
  \<^verbatim>\<open>bcryptjs\<close> (password, salt) and its comparison (password, stored hash), the
  compact text of a token and the reading of such a text, and the keyed signature.
  \<open>io\<close> holds what one request reads from outside: the clock, the salt that
  \<^verbatim>\<open>bcrypt.genSalt(10)\<close> returns, the bytes of the random source, and whether the mail
  transport delivers.
\<close>

record env =
  JWT_SECRET :: string
  parseInt :: "string \<Rightarrow> int option"
  bcrypt_hash :: "string \<Rightarrow> string \<Rightarrow> string"
  bcrypt_compare :: "string \<Rightarrow> string \<Rightarrow> bool"
  jwt_encode :: "jwt \<Rightarrow> string"
  jwt_decode :: "string \<Rightarrow> jwt option"
  hmac :: "string \<Rightarrow> int \<times> int \<times> int \<Rightarrow> string"

record io =
  now :: datetime
  salt :: string
  entropy :: "nat \<Rightarrow> 8 word"
  mail_ok :: bool

text \<open>\<^verbatim>\<open>bcryptjs\<close> rejects a password that is not a string.\<close>

definition bcrypt_hash_js :: "env \<Rightarrow> string option \<Rightarrow> string \<Rightarrow> exn + string" where
  "bcrypt_hash_js E pw s =
     (case pw of None \<Rightarrow> Inl BcryptIllegalArguments | Some p \<Rightarrow> Inr (bcrypt_hash E p s))"

definition bcrypt_compare_js :: "env \<Rightarrow> string option \<Rightarrow> string \<Rightarrow> exn + bool" where
  "bcrypt_compare_js E pw h =
     (case pw of None \<Rightarrow> Inl BcryptIllegalArguments | Some p \<Rightarrow> Inr (bcrypt_compare E p h))"

text \<open>utils/sendEmail.js: the transport delivers the message or throws.\<close>

definition asyncSendEmail :: "io \<Rightarrow> exn + unit" where
  "asyncSendEmail W = (if mail_ok W then Inr () else Inl MailError)"

text \<open>\<^verbatim>\<open>crypto.randomBytes(n).toString("hex")\<close>: two lower-case digits for each byte.\<close>

definition randomBytes :: "io \<Rightarrow> nat \<Rightarrow> 8 word list" where
  "randomBytes W n = map (entropy W) [0..<n]"

definition hex_digit :: "nat \<Rightarrow> char" where
  "hex_digit n = ''0123456789abcdef'' ! (n mod 16)"

definition hex_of_byte :: "8 word \<Rightarrow> string" where
  "hex_of_byte b = [hex_digit (unat b div 16), hex_digit (unat b mod 16)]"

definition toString_hex :: "8 word list \<Rightarrow> string" where
  "toString_hex bs = concat (map hex_of_byte bs)"

text \<open>The reading of hexadecimal text, used to state that the encoding loses nothing.\<close>

definition hex_value :: "char \<Rightarrow> nat" where
  "hex_value c =
     (case map_of [(CHR ''0'', 0), (CHR ''1'', 1), (CHR ''2'', 2), (CHR ''3'', 3),
                   (CHR ''4'', 4), (CHR ''5'', 5), (CHR ''6'', 6), (CHR ''7'', 7),
                   (CHR ''8'', 8), (CHR ''9'', 9), (CHR ''a'', 10), (CHR ''b'', 11),
                   (CHR ''c'', 12), (CHR ''d'', 13), (CHR ''e'', 14), (CHR ''f'', 15)] c of
        None \<Rightarrow> 0
      | Some v \<Rightarrow> v)"

fun from_hex :: "string \<Rightarrow> 8 word list" where
  "from_hex (a # b # cs) = of_nat (16 * hex_value a + hex_value b) # from_hex cs"
| "from_hex _ = []"

section \<open>The store (the Prisma client over the schema)\<close>

text \<open>
  Each operation returns its result or the exception the client throws. The constraints
  are those of the schema: primary keys of type \<^verbatim>\<open>Int\<close>, the two unique indexes of
  \<^verbatim>\<open>User\<close>, the column widths \<^verbatim>\<open>VarChar(30)\<close> and \<^verbatim>\<open>VarChar(255)\<close>, the
  foreign key of \<^verbatim>\<open>Post.created_by\<close>. A required argument that is absent is a
  validation error of the client; a field of \<^verbatim>\<open>data\<close> that is absent is left as it
  is. The store itself is taken to be reachable.

  The \<^verbatim>\<open>id\<close> in the \<^verbatim>\<open>where\<close> of a post is what \<^verbatim>\<open>parseInt\<close> returned: a
  number, or \<open>None\<close> for \<^verbatim>\<open>NaN\<close>. The client throws when it is \<^verbatim>\<open>NaN\<close> and when
  the number does not fit the 32-bit column.
\<close>

definition int4 :: "int \<Rightarrow> bool" where
  "int4 i = (- 2147483648 \<le> i \<and> i \<le> 2147483647)"

definition where_id :: "int option \<Rightarrow> exn + int" where
  "where_id i =
     (case i of
        None \<Rightarrow> Inl PrismaValidationError
      | Some n \<Rightarrow> if int4 n then Inr n else Inl PrismaValueOutOfRange)"

definition post_row :: "db \<Rightarrow> int \<Rightarrow> post option" where
  "post_row d n = find (\<lambda>p. post_id p = n) (posts d)"

definition post_findUnique :: "db \<Rightarrow> int option \<Rightarrow> exn + post option" where
  "post_findUnique d i = (case where_id i of Inl e \<Rightarrow> Inl e | Inr n \<Rightarrow> Inr (post_row d n))"

definition post_create ::
  "db \<Rightarrow> datetime \<Rightarrow> string \<Rightarrow> string option \<Rightarrow> int \<Rightarrow> exn + (db \<times> post)" where
  "post_create d created t b uid =
     (if \<not> list_ex (\<lambda>u. user_id u = uid) (users d) then Inl (PrismaKnownRequestError ''P2025'')
      else if 255 < length t then Inl (PrismaKnownRequestError ''P2000'')
      else
        (let p = \<lparr>post_id = post_seq d + 1, title = t, body = b,
                  created_by = uid, created_at = created\<rparr>
         in Inr (d\<lparr>posts := posts d @ [p], post_seq := post_seq d + 1\<rparr>, p)))"

definition post_set :: "string option \<Rightarrow> string option \<Rightarrow> post \<Rightarrow> post" where
  "post_set t b p =
     p\<lparr>title := (case t of None \<Rightarrow> title p | Some s \<Rightarrow> s),
       body := (case b of None \<Rightarrow> body p | Some s \<Rightarrow> Some s)\<rparr>"

definition post_update ::
  "db \<Rightarrow> int option \<Rightarrow> string option \<Rightarrow> string option \<Rightarrow> exn + (db \<times> post)" where
  "post_update d i t b =
     (case where_id i of
        Inl e \<Rightarrow> Inl e
      | Inr n \<Rightarrow>
          (case post_row d n of
             None \<Rightarrow> Inl (PrismaKnownRequestError ''P2025'')
           | Some p \<Rightarrow>
               if (case t of None \<Rightarrow> False | Some s \<Rightarrow> 255 < length s)
               then Inl (PrismaKnownRequestError ''P2000'')
               else
                 Inr (d\<lparr>posts :=
                          map (\<lambda>q. if post_id q = n then post_set t b q else q) (posts d)\<rparr>,
                      post_set t b p)))"

definition post_delete :: "db \<Rightarrow> int option \<Rightarrow> exn + (db \<times> post)" where
  "post_delete d i =
     (case where_id i of
        Inl e \<Rightarrow> Inl e
      | Inr n \<Rightarrow>
          (case post_row d n of
             None \<Rightarrow> Inl (PrismaKnownRequestError ''P2025'')
           | Some p \<Rightarrow> Inr (d\<lparr>posts := filter (\<lambda>q. post_id q \<noteq> n) (posts d)\<rparr>, p)))"

section \<open>controllers/postController.js\<close>

text \<open>
  \<^verbatim>\<open>req.user\<close> is the identity the middleware attached, or \<open>None\<close> when it attached
  \<^verbatim>\<open>null\<close>; reading \<^verbatim>\<open>req.user.id\<close> then throws a \<^verbatim>\<open>TypeError\<close>.
\<close>

definition req_user_id :: "identity option \<Rightarrow> exn + int" where
  "req_user_id req_user = (case req_user of None \<Rightarrow> Inl TypeError | Some u \<Rightarrow> Inr (ident_id u))"

definition post_json :: "post \<Rightarrow> json" where
  "post_json p =
     JObj [(''id'', JNum (post_id p)),
           (''title'', JStr (title p)),
           (''body'', (case body p of None \<Rightarrow> JNull | Some s \<Rightarrow> JStr s)),
           (''created_by'', JNum (created_by p)),
           (''created_at'', JNum (created_at p))]"

text \<open>
  The handlers of \<^verbatim>\<open>/posts/:id\<close> take the text of the route parameter,
  \<^verbatim>\<open>req.params.id\<close>. An exception thrown inside \<^verbatim>\<open>try\<close> is logged by
  \<^verbatim>\<open>catch\<close>, and the handler goes on to the response after the block with \<^verbatim>\<open>post\<close>
  as it is then: \<^verbatim>\<open>undefined\<close> when the first lookup threw.
\<close>

definition asyncGetPost :: "env \<Rightarrow> db \<Rightarrow> identity option \<Rightarrow> string \<Rightarrow> db \<times> outcome" where
  "asyncGetPost E d req_user id_param =
     (let id = parseInt E id_param
      in
        (case post_findUnique d id of
           Inl e \<Rightarrow> (d, Json 200 None)
         | Inr None \<Rightarrow> (d, NextError 404 (''No post with id '' @ id_param @ '' was found''))
         | Inr (Some p) \<Rightarrow>
             (case req_user_id req_user of
                Inl e \<Rightarrow> (d, Json 200 (Some (post_json p)))
              | Inr uid \<Rightarrow>
                  if created_by p \<noteq> uid
                  then (d, NextError 401 ''You are not authorized to view this post'')
                  else (d, Json 200 (Some (post_json p))))))"

text \<open>
  \<^verbatim>\<open>if (!title)\<close>: the title is absent, or it is the empty string. \<open>created\<close> is
  the instant of the request, the default of \<^verbatim>\<open>created_at\<close>.
\<close>

definition asyncCreatePost ::
  "db \<Rightarrow> datetime \<Rightarrow> identity option \<Rightarrow> string option \<Rightarrow> string option \<Rightarrow> db \<times> outcome" where
  "asyncCreatePost d created req_user t b =
     (case t of
        None \<Rightarrow> (d, NextError 404 ''Please include a title field'')
      | Some s \<Rightarrow>
          if falsy (Some s) then (d, NextError 404 ''Please include a title field'')
          else
            (case req_user_id req_user of
               Inl e \<Rightarrow> (d, Json 201 None)
             | Inr uid \<Rightarrow>
                 (case post_create d created s b uid of
                    Inl e \<Rightarrow> (d, Json 201 None)
                  | Inr (d', p) \<Rightarrow> (d', Json 201 (Some (post_json p))))))"

definition asyncUpdatePost ::
  "env \<Rightarrow> db \<Rightarrow> identity option \<Rightarrow> string \<Rightarrow> string option \<Rightarrow> string option \<Rightarrow>
     db \<times> outcome" where
  "asyncUpdatePost E d req_user id_param t b =
     (let id = parseInt E id_param
      in
        (case post_findUnique d id of
           Inl e \<Rightarrow> (d, Json 200 None)
         | Inr None \<Rightarrow> (d, NextError 404 (''No post with id '' @ id_param @ '' was found''))
         | Inr (Some p) \<Rightarrow>
             (case req_user_id req_user of
                Inl e \<Rightarrow> (d, Json 200 (Some (post_json p)))
              | Inr uid \<Rightarrow>
                  if created_by p \<noteq> uid
                  then (d, NextError 401 ''You are not authorized to update this post'')
                  else
                    (case post_update d id t b of
                       Inl e \<Rightarrow> (d, Json 200 (Some (post_json p)))
                     | Inr (d', p') \<Rightarrow> (d', Json 200 (Some (post_json p')))))))"

definition asyncDeletePost :: "env \<Rightarrow> db \<Rightarrow> identity option \<Rightarrow> string \<Rightarrow> db \<times> outcome" where
  "asyncDeletePost E d req_user id_param =
     (let id = parseInt E id_param
      in
        (case post_findUnique d id of
           Inl e \<Rightarrow> (d, Json 204 None)
         | Inr None \<Rightarrow> (d, NextError 404 (''No post with id '' @ id_param @ '' was found''))
         | Inr (Some p) \<Rightarrow>
             (case req_user_id req_user of
                Inl e \<Rightarrow> (d, Json 204 None)
              | Inr uid \<Rightarrow>
                  if created_by p \<noteq> uid
                  then (d, NextError 401 ''You are not authorized to delete this post'')
                  else
                    (case post_delete d id of
                       Inl e \<Rightarrow> (d, Json 204 None)
                     | Inr (d', p') \<Rightarrow> (d', Json 204 None)))))"

section \<open>The token service\<close>

text \<open>
  Modelled from the spec: \<^verbatim>\<open>jwt.sign\<close> is not among the sources. The token service
  issues a signed credential embedding the user identifier and an expiry, and includes the
  issued-at instant. The instants of a token are whole seconds, the clock is in
  milliseconds. \<open>jwt_issue\<close> is the credential, \<open>jwt_sign\<close> its text.
\<close>

definition jwt_issue :: "env \<Rightarrow> int \<Rightarrow> string \<Rightarrow> int \<Rightarrow> datetime \<Rightarrow> jwt" where
  "jwt_issue E i secret expiresIn t =
     (let iat = t div 1000; e = iat + expiresIn
      in \<lparr>jwt_id = i, jwt_iat = iat, jwt_exp = e, jwt_sig = hmac E secret (i, iat, e)\<rparr>)"

text \<open>
  Modelled from the spec: the text of the credential that \<^verbatim>\<open>jwt.sign\<close>, which is not
  among the sources, returns.
\<close>

definition jwt_sign :: "env \<Rightarrow> int \<Rightarrow> string \<Rightarrow> int \<Rightarrow> datetime \<Rightarrow> string" where
  "jwt_sign E i secret expiresIn t = jwt_encode E (jwt_issue E i secret expiresIn t)"

text \<open>
  Modelled from the spec: \<^verbatim>\<open>jwt.verify\<close> is not among the sources. It checks the
  signature and the expiry, and fails on a malformed token, a bad signature and an
  expired token; a token is expired from the second of its expiry on. A missing or empty
  token is rejected before it is read.
\<close>

definition jwt_verify :: "env \<Rightarrow> string option \<Rightarrow> string \<Rightarrow> datetime \<Rightarrow> exn + jwt" where
  "jwt_verify E token secret t =
     (case token of
        None \<Rightarrow> Inl (JsonWebTokenError ''jwt must be provided'')
      | Some s \<Rightarrow>
          if s = [] then Inl (JsonWebTokenError ''jwt must be provided'')
          else
            (case jwt_decode E s of
               None \<Rightarrow> Inl (JsonWebTokenError ''jwt malformed'')
             | Some j \<Rightarrow>
                 if jwt_sig j \<noteq> hmac E secret (jwt_id j, jwt_iat j, jwt_exp j)
                 then Inl (JsonWebTokenError ''invalid signature'')
                 else if jwt_exp j \<le> t div 1000 then Inl TokenExpiredError
                 else Inr j))"

text \<open>\<^verbatim>\<open>generateJWT\<close>: \<^verbatim>\<open>expiresIn: "30d"\<close> is thirty days, in seconds.\<close>

definition generateJWT :: "env \<Rightarrow> io \<Rightarrow> int \<Rightarrow> string" where
  "generateJWT E W i = jwt_sign E i (JWT_SECRET E) (30 * 24 * 60 * 60) (now W)"

section \<open>The store: users\<close>

text \<open>
  The ids of these lookups are ids of rows: the one a token was issued for, and the one of
  the identity attached to the request.
\<close>

definition user_findUnique_id :: "db \<Rightarrow> int \<Rightarrow> user option" where
  "user_findUnique_id d i = find (\<lambda>u. user_id u = i) (users d)"

definition user_findUnique_username :: "db \<Rightarrow> string option \<Rightarrow> exn + user option" where
  "user_findUnique_username d n =
     (case n of
        None \<Rightarrow> Inl PrismaValidationError
      | Some s \<Rightarrow> Inr (find (\<lambda>u. username u = s) (users d)))"

definition user_findUnique_email :: "db \<Rightarrow> string option \<Rightarrow> exn + user option" where
  "user_findUnique_email d e =
     (case e of
        None \<Rightarrow> Inl PrismaValidationError
      | Some s \<Rightarrow> Inr (find (\<lambda>u. email u = s) (users d)))"

text \<open>
  \<^verbatim>\<open>findFirst\<close> with the two conditions of the reset: the stored token is the given
  one, and the stored expiry is not before the given instant. A row whose column is
  \<^verbatim>\<open>null\<close> matches neither condition.
\<close>

definition reset_matches :: "string \<Rightarrow> datetime \<Rightarrow> user \<Rightarrow> bool" where
  "reset_matches token t u =
     (passwordResetToken u = Some token \<and>
      (case passwordResetTokenExpiry u of None \<Rightarrow> False | Some e \<Rightarrow> t \<le> e))"

definition user_findFirst_reset :: "db \<Rightarrow> string \<Rightarrow> datetime \<Rightarrow> user option" where
  "user_findFirst_reset d token t = find (reset_matches token t) (users d)"

definition select_identity :: "user \<Rightarrow> identity" where
  "select_identity u =
     \<lparr>ident_id = user_id u, ident_username = username u, ident_email = email u\<rparr>"

text \<open>
  The sequence of the primary key advances when the \<^verbatim>\<open>INSERT\<close> reaches the unique
  indexes, whether they accept the row or refuse it. The model takes the validation of the
  client and the check of the column width to come before that; nothing stated below
  depends on the sequence after a refusal.
\<close>

definition user_create ::
  "db \<Rightarrow> string option \<Rightarrow> string option \<Rightarrow> string \<Rightarrow> db \<times> (exn + user)" where
  "user_create d n e pw =
     (case n of
        None \<Rightarrow> (d, Inl PrismaValidationError)
      | Some n' \<Rightarrow>
          (case e of
             None \<Rightarrow> (d, Inl PrismaValidationError)
           | Some e' \<Rightarrow>
               if 30 < length n' then (d, Inl (PrismaKnownRequestError ''P2000''))
               else if list_ex (\<lambda>u. email u = e' \<or> username u = n') (users d)
               then (d\<lparr>user_seq := user_seq d + 1\<rparr>, Inl (PrismaKnownRequestError ''P2002''))
               else
                 (let u = \<lparr>user_id = user_seq d + 1, email = e', username = n', password = pw,
                           passwordResetToken = None, passwordResetTokenExpiry = None\<rparr>
                  in (d\<lparr>users := users d @ [u], user_seq := user_seq d + 1\<rparr>, Inr u))))"

text \<open>
  The \<^verbatim>\<open>data\<close> of an update of a user: each field is absent, or it is the new value of
  the column (which for the two nullable columns may be \<^verbatim>\<open>null\<close>).
\<close>

record user_data =
  data_password :: "string option"
  data_passwordResetToken :: "string option option"
  data_passwordResetTokenExpiry :: "datetime option option"

definition user_set :: "user_data \<Rightarrow> user \<Rightarrow> user" where
  "user_set dat u =
     u\<lparr>password := (case data_password dat of None \<Rightarrow> password u | Some h \<Rightarrow> h),
       passwordResetToken :=
         (case data_passwordResetToken dat of None \<Rightarrow> passwordResetToken u | Some v \<Rightarrow> v),
       passwordResetTokenExpiry :=
         (case data_passwordResetTokenExpiry dat of
            None \<Rightarrow> passwordResetTokenExpiry u | Some v \<Rightarrow> v)\<rparr>"

definition user_update :: "db \<Rightarrow> (user \<Rightarrow> bool) \<Rightarrow> user_data \<Rightarrow> exn + db" where
  "user_update d wh dat =
     (if \<not> list_ex wh (users d) then Inl (PrismaKnownRequestError ''P2025'')
      else Inr (d\<lparr>users := map (\<lambda>u. if wh u then user_set dat u else u) (users d)\<rparr>))"

section \<open>controllers/userController.js\<close>

definition auth_json :: "env \<Rightarrow> io \<Rightarrow> user \<Rightarrow> json" where
  "auth_json E W u =
     JObj [(''id'', JNum (user_id u)),
           (''username'', JStr (username u)),
           (''email'', JStr (email u)),
           (''token'', JStr (generateJWT E W (user_id u)))]"

text \<open>The \<^verbatim>\<open>catch\<close> block of the registration.\<close>

definition register_catch :: "exn \<Rightarrow> outcome" where
  "register_catch e =
     (if e = PrismaKnownRequestError ''P2002''
      then NextError 400 ''Email or username already exists.''
      else NextError 400 ''Please include all fields.'')"

definition asyncRegisterUser ::
  "env \<Rightarrow> io \<Rightarrow> db \<Rightarrow> string option \<Rightarrow> string option \<Rightarrow> string option \<Rightarrow> db \<times> outcome" where
  "asyncRegisterUser E W d n e pw =
     (case bcrypt_hash_js E pw (salt W) of
        Inl x \<Rightarrow> (d, register_catch x)
      | Inr hashedPassword \<Rightarrow>
          (case user_create d n e hashedPassword of
             (d', Inl x) \<Rightarrow> (d', register_catch x)
           | (d', Inr u) \<Rightarrow> (d', Json 201 (Some (auth_json E W u)))))"

definition asyncLoginUser ::
  "env \<Rightarrow> io \<Rightarrow> db \<Rightarrow> string option \<Rightarrow> string option \<Rightarrow> db \<times> outcome" where
  "asyncLoginUser E W d n pw =
     (case user_findUnique_username d n of
        Inl x \<Rightarrow> (d, NoResponse)
      | Inr None \<Rightarrow> (d, NextError 401 ''Couldn't find your account.'')
      | Inr (Some u) \<Rightarrow>
          (case bcrypt_compare_js E pw (password u) of
             Inl x \<Rightarrow> (d, NoResponse)
           | Inr ok \<Rightarrow>
               if ok then (d, Json 200 (Some (auth_json E W u)))
               else (d, NextError 401 ''Couldn't find your account.'')))"

text \<open>
  The handler of \<^verbatim>\<open>/users/me\<close> has no \<^verbatim>\<open>try\<close>: reading \<^verbatim>\<open>req.user.id\<close> of
  a null identity, or taking the fields of a row that was not found, rejects its promise.
\<close>

definition me_json :: "user \<Rightarrow> json" where
  "me_json u =
     JObj [(''id'', JNum (user_id u)),
           (''username'', JStr (username u)),
           (''email'', JStr (email u))]"

definition asyncGetUserData :: "db \<Rightarrow> identity option \<Rightarrow> db \<times> outcome" where
  "asyncGetUserData d req_user =
     (case req_user_id req_user of
        Inl x \<Rightarrow> (d, Rejected x)
      | Inr uid \<Rightarrow>
          (case user_findUnique_id d uid of
             None \<Rightarrow> (d, Rejected TypeError)
           | Some u \<Rightarrow> (d, Json 200 (Some (me_json u)))))"

definition forgot_msg :: json where
  "forgot_msg = JObj [(''msg'', JStr ''Password reset link sent to your email.'')]"

definition asyncForgotPassword :: "io \<Rightarrow> db \<Rightarrow> string option \<Rightarrow> db \<times> outcome" where
  "asyncForgotPassword W d e =
     (case user_findUnique_email d e of
        Inl x \<Rightarrow> (d, Json 200 (Some forgot_msg))
      | Inr None \<Rightarrow> (d, NextError 404 ''Couldn't find your account.'')
      | Inr (Some u) \<Rightarrow>
          (let resetToken = toString_hex (randomBytes W 32);
               resetTokenExpiry = now W + 1000 * 60 * 10
           in
             (case user_update d (\<lambda>x. Some (email x) = e)
                     \<lparr>data_password = None,
                      data_passwordResetToken = Some (Some resetToken),
                      data_passwordResetTokenExpiry = Some (Some resetTokenExpiry)\<rparr> of
                Inl x \<Rightarrow> (d, Json 200 (Some forgot_msg))
              | Inr d' \<Rightarrow>
                  (case asyncSendEmail W of
                     Inl x \<Rightarrow> (d', Json 200 (Some forgot_msg))
                   | Inr _ \<Rightarrow> (d', Json 200 (Some forgot_msg))))))"

definition reset_msg :: json where
  "reset_msg = JObj [(''msg'', JStr ''Password has been reset successfully.'')]"

definition asyncResetPassword ::
  "env \<Rightarrow> io \<Rightarrow> db \<Rightarrow> string \<Rightarrow> string option \<Rightarrow> db \<times> outcome" where
  "asyncResetPassword E W d token newPassword =
     (case user_findFirst_reset d token (now W) of
        None \<Rightarrow> (d, NextError 400 ''Invalid or expired token.'')
      | Some u \<Rightarrow>
          (case bcrypt_hash_js E newPassword (salt W) of
             Inl x \<Rightarrow> (d, Json 200 (Some reset_msg))
           | Inr hashedPassword \<Rightarrow>
               (case user_update d (\<lambda>x. user_id x = user_id u)
                       \<lparr>data_password = Some hashedPassword,
                        data_passwordResetToken = Some None,
                        data_passwordResetTokenExpiry = Some None\<rparr> of
                  Inl x \<Rightarrow> (d, Json 200 (Some reset_msg))
                | Inr d' \<Rightarrow> (d', Json 200 (Some reset_msg)))))"

section \<open>middleware/auth.js\<close>

text \<open>
  \<^verbatim>\<open>String.prototype.startsWith\<close>, \<^verbatim>\<open>String.prototype.split\<close> with a separator of
  one character, and the reading of an array element, which is \<^verbatim>\<open>undefined\<close> beyond
  the end.
\<close>

definition startsWith :: "string \<Rightarrow> string \<Rightarrow> bool" where
  "startsWith s p = (take (length p) s = p)"

fun js_split :: "char \<Rightarrow> string \<Rightarrow> string list" where
  "js_split c [] = [[]]"
| "js_split c (x # xs) =
     (if x = c then [] # js_split c xs
      else (case js_split c xs of [] \<Rightarrow> [[x]] | w # ws \<Rightarrow> (x # w) # ws))"

fun element :: "'a list \<Rightarrow> nat \<Rightarrow> 'a option" where
  "element [] n = None"
| "element (x # xs) 0 = Some x"
| "element (x # xs) (Suc n) = element xs n"

text \<open>
  The middleware calls \<^verbatim>\<open>next\<close> with no argument, which runs the handler of the
  route, or with an error. The model returns what it assigned to \<^verbatim>\<open>req.user\<close> and
  the calls of \<^verbatim>\<open>next\<close> it made, in order.
\<close>

datatype call = Next | NextErr nat string

definition protect :: "env \<Rightarrow> io \<Rightarrow> db \<Rightarrow> string option \<Rightarrow> identity option \<times> call list" where
  "protect E W d authorization =
     (let (token, req_user, calls) =
        (case authorization of
           None \<Rightarrow> (None, None, [])
         | Some h \<Rightarrow>
             if h \<noteq> [] \<and> startsWith h ''Bearer '' then
               (let token = element (js_split CHR '' '' h) 1
                in
                  (case jwt_verify E token (JWT_SECRET E) (now W) of
                     Inl x \<Rightarrow> (token, None, [NextErr 401 ''Unauthorized''])
                   | Inr decoded \<Rightarrow>
                       (token,
                        map_option select_identity (user_findUnique_id d (jwt_id decoded)),
                        [Next])))
             else (None, None, []))
      in
        (req_user,
         calls @
         (if falsy token
          then [NextErr 401 ''Request is missing required authentication credential.'']
          else [])))"

section \<open>Properties of the rows that the claims speak of\<close>

text \<open>The reset token and its expiry are both set or both null.\<close>

definition reset_paired :: "user \<Rightarrow> bool" where
  "reset_paired u = ((passwordResetToken u = None) = (passwordResetTokenExpiry u = None))"

definition users_reset_paired :: "db \<Rightarrow> bool" where
  "users_reset_paired d = list_all reset_paired (users d)"

text \<open>No two rows of \<^verbatim>\<open>User\<close> share an email, and no two share a username.\<close>

definition users_unique :: "db \<Rightarrow> bool" where
  "users_unique d = (distinct (map email (users d)) \<and> distinct (map username (users d)))"

section \<open>A concrete server and store, on which the model is evaluated\<close>

text \<open>
  The libraries are parameters of the model. To evaluate it, the following instance
  writes a token as its three numbers in decimal and its signature, separated by dots,
  and reads it back; the signature and the password hash are stand-ins that only have to
  be functions. In the place of \<^verbatim>\<open>parseInt\<close> it reads a decimal numeral with an
  optional minus sign and gives \<^verbatim>\<open>NaN\<close> for any other text, as \<^verbatim>\<open>parseInt\<close> does
  on the texts used below.
\<close>

definition digit_char :: "nat \<Rightarrow> char" where
  "digit_char n = ''0123456789'' ! (n mod 10)"

function dec_digits :: "nat \<Rightarrow> string" where
  "dec_digits n =
     (if n < 10 then [digit_char n] else dec_digits (n div 10) @ [digit_char (n mod 10)])"
  by pat_completeness auto
termination
  by (relation "measure id") auto

declare dec_digits.simps [simp del]

definition digit_value :: "char \<Rightarrow> nat option" where
  "digit_value c =
     map_of [(CHR ''0'', 0), (CHR ''1'', 1), (CHR ''2'', 2), (CHR ''3'', 3), (CHR ''4'', 4),
             (CHR ''5'', 5), (CHR ''6'', 6), (CHR ''7'', 7), (CHR ''8'', 8), (CHR ''9'', 9)] c"

fun parse_digits :: "nat \<Rightarrow> string \<Rightarrow> nat option" where
  "parse_digits acc [] = Some acc"
| "parse_digits acc (c # cs) =
     (case digit_value c of None \<Rightarrow> None | Some v \<Rightarrow> parse_digits (10 * acc + v) cs)"

definition parse_nat :: "string \<Rightarrow> nat option" where
  "parse_nat s = (if s = [] then None else parse_digits 0 s)"

definition show_int :: "int \<Rightarrow> string" where
  "show_int i = (if i < 0 then CHR ''-'' # dec_digits (nat (- i)) else dec_digits (nat i))"

definition parse_int :: "string \<Rightarrow> int option" where
  "parse_int s =
     (case s of
        [] \<Rightarrow> None
      | c # r \<Rightarrow>
          if c = CHR ''-'' then map_option (\<lambda>k. - int k) (parse_nat r)
          else map_option int (parse_nat s))"

definition field :: "string \<Rightarrow> string" where
  "field s = takeWhile (\<lambda>c. c \<noteq> CHR ''.'') s"

definition after_field :: "string \<Rightarrow> string" where
  "after_field s = drop 1 (dropWhile (\<lambda>c. c \<noteq> CHR ''.'') s)"

definition example_encode :: "jwt \<Rightarrow> string" where
  "example_encode j =
     show_int (jwt_id j) @ ''.'' @ show_int (jwt_iat j) @ ''.'' @
     show_int (jwt_exp j) @ ''.'' @ jwt_sig j"

definition example_decode :: "string \<Rightarrow> jwt option" where
  "example_decode s =
     (let s1 = after_field s; s2 = after_field s1
      in case (parse_int (field s), parse_int (field s1), parse_int (field s2)) of
           (Some x, Some y, Some z) \<Rightarrow>
             Some \<lparr>jwt_id = x, jwt_iat = y, jwt_exp = z, jwt_sig = after_field s2\<rparr>
         | _ \<Rightarrow> None)"

definition example_env :: env where
  "example_env =
     \<lparr>JWT_SECRET = ''s3cret'',
      parseInt = parse_int,
      bcrypt_hash = (\<lambda>p s. s @ rev p),
      bcrypt_compare = (\<lambda>p h. drop (length h - length p) h = rev p),
      jwt_encode = example_encode,
      jwt_decode = example_decode,
      hmac = (\<lambda>k (i, a, b). rev k @ [digit_char (nat ((i + a + b) mod 10))])\<rparr>"

definition example_io :: io where
  "example_io =
     \<lparr>now = 1700000000123, salt = ''salt'', entropy = (\<lambda>n. of_nat (7 * n + 3)),
      mail_ok = False\<rparr>"

text \<open>
  Three users: the first has a reset pending that is still valid at the instant of
  \<open>example_io\<close>, the second has none, the third has one that expired. One post, of the
  first user.
\<close>

definition alice :: user where
  "alice =
     \<lparr>user_id = 1, email = ''alice@example.org'', username = ''alice'',
      password = ''saltdrowssap'', passwordResetToken = Some ''00ff'',
      passwordResetTokenExpiry = Some 1700000300000\<rparr>"

definition bob :: user where
  "bob =
     \<lparr>user_id = 2, email = ''bob@example.org'', username = ''bob'',
      password = ''saltterces'', passwordResetToken = None,
      passwordResetTokenExpiry = None\<rparr>"

definition carol :: user where
  "carol =
     \<lparr>user_id = 3, email = ''carol@example.org'', username = ''carol'',
      password = ''salt321'', passwordResetToken = Some ''abcd'',
      passwordResetTokenExpiry = Some 1600000000000\<rparr>"

definition hello :: post where
  "hello =
     \<lparr>post_id = 1, title = ''Hello'', body = None, created_by = 1,
      created_at = 1690000000000\<rparr>"

definition example_db :: db where
  "example_db = \<lparr>users = [alice, bob, carol], posts = [hello], user_seq = 3, post_seq = 1\<rparr>"

section \<open>Facts about lists, the store and the libraries\<close>

lemma find_list_ex: "list_ex P xs \<Longrightarrow> \<exists>x. find P xs = Some x \<and> x \<in> set xs \<and> P x"
  by (induction xs) auto

lemma find_not_list_ex: "\<not> list_ex P xs \<Longrightarrow> find P xs = None"
  by (induction xs) auto

lemma find_Some_mem: "find P xs = Some x \<Longrightarrow> x \<in> set xs \<and> P x"
  by (induction xs) (auto split: if_splits)

lemma user_set_reset:
  "user_set \<lparr>data_password = Some h, data_passwordResetToken = Some None,
             data_passwordResetTokenExpiry = Some None\<rparr> x =
   x\<lparr>password := h, passwordResetToken := None, passwordResetTokenExpiry := None\<rparr>"
  by (simp add: user_set_def)

lemma user_set_forgot:
  "user_set \<lparr>data_password = None, data_passwordResetToken = Some (Some k),
             data_passwordResetTokenExpiry = Some (Some t)\<rparr> x =
   x\<lparr>passwordResetToken := Some k, passwordResetTokenExpiry := Some t\<rparr>"
  by (simp add: user_set_def)

subsection \<open>Hexadecimal text\<close>

lemma hex_digit_cases:
  "n < 16 \<Longrightarrow> n \<in> {0, 1, 2, 3, 4, 5, 6, 7, 8, 9, 10, 11, 12, 13, 14, 15 :: nat}"
  by (simp; arith)

lemma hex_value_digit: "n < 16 \<Longrightarrow> hex_value (hex_digit n) = n"
  using hex_digit_cases [of n] by (auto simp: hex_value_def hex_digit_def)

lemma hex_digit_in: "n < 16 \<Longrightarrow> hex_digit n \<in> set ''0123456789abcdef''"
  using hex_digit_cases [of n] by (auto simp: hex_digit_def)

lemma high_digit: "unat (b :: 8 word) div 16 < 16"
  using unsigned_less [of b, where ?'a = nat] by simp

lemma from_hex_byte: "from_hex (hex_of_byte b @ cs) = b # from_hex cs"
proof -
  have "unat b mod 16 < 16" by simp
  moreover have "16 * (unat b div 16) + unat b mod 16 = unat b" by simp
  ultimately show ?thesis
    using high_digit [of b] by (simp add: hex_of_byte_def hex_value_digit)
qed

lemma from_hex_toString_hex: "from_hex (toString_hex bs) = bs"
  by (induction bs) (simp_all add: toString_hex_def from_hex_byte)

lemma length_toString_hex: "length (toString_hex bs) = 2 * length bs"
  by (induction bs) (simp_all add: toString_hex_def hex_of_byte_def)

lemma set_toString_hex: "set (toString_hex bs) \<subseteq> set ''0123456789abcdef''"
proof (induction bs)
  case Nil
  show ?case by (simp add: toString_hex_def)
next
  case (Cons b bs)
  have "set (hex_of_byte b) \<subseteq> set ''0123456789abcdef''"
    using hex_digit_in [of "unat b div 16"] hex_digit_in [of "unat b mod 16"] high_digit [of b]
    by (simp add: hex_of_byte_def)
  with Cons show ?case by (simp add: toString_hex_def)
qed

lemma length_randomBytes: "length (randomBytes W n) = n"
  by (simp add: randomBytes_def)

subsection \<open>The token service and the middleware\<close>

lemma jwt_verify_Inr_not_falsy:
  "jwt_verify E token secret t = Inr j \<Longrightarrow> \<not> falsy token"
  by (auto simp: jwt_verify_def falsy_def split: option.splits if_splits)

lemma expiry_elapsed:
  fixes a t :: int
  assumes "a + 30 * 24 * 60 * 60 * 1000 \<le> t"
  shows "a div 1000 + 30 * 24 * 60 * 60 \<le> t div 1000"
proof -
  have "(a + 2592000 * 1000) div 1000 \<le> t div 1000"
    using assms by (intro zdiv_mono1) simp_all
  then show ?thesis by simp
qed

lemma js_split_no_sep: "c \<notin> set s \<Longrightarrow> js_split c s = [s]"
  by (induction s) auto

text \<open>
  Whatever the request, the middleware makes one of four sequences of calls: the handler
  alone, one error alone, or the two errors one after the other.
\<close>

lemma protect_calls:
  "snd (protect E W d a) \<in>
     {[Next],
      [NextErr 401 ''Unauthorized''],
      [NextErr 401 ''Request is missing required authentication credential.''],
      [NextErr 401 ''Unauthorized'',
       NextErr 401 ''Request is missing required authentication credential.'']}"
  by (auto simp: protect_def Let_def falsy_def dest!: jwt_verify_Inr_not_falsy
      split: option.splits sum.splits if_splits)

lemma protect_handler_excludes_error:
  "\<not> (Next \<in> set (snd (protect E W d a)) \<and> (\<exists>s m. NextErr s m \<in> set (snd (protect E W d a))))"
  using protect_calls [of E W d a] by auto

lemma protect_calls_something: "snd (protect E W d a) \<noteq> []"
  using protect_calls [of E W d a] by auto

text \<open>A token that verifies reaches the handler with whatever the lookup returned.\<close>

lemma protect_verified:
  assumes "jwt_verify E (Some tok) (JWT_SECRET E) (now W) = Inr j"
    and "CHR '' '' \<notin> set tok"
  shows "protect E W d (Some (''Bearer '' @ tok)) =
           (map_option select_identity (user_findUnique_id d (jwt_id j)), [Next])"
  using assms jwt_verify_Inr_not_falsy [OF assms(1)]
  by (simp add: protect_def startsWith_def js_split_no_sep)

lemma protect_identity:
  "protect E W d a = (Some i, calls) \<Longrightarrow>
     \<exists>u \<in> set (users d).
       i = \<lparr>ident_id = user_id u, ident_username = username u, ident_email = email u\<rparr>"
  by (auto simp: protect_def Let_def user_findUnique_id_def select_identity_def
      split: option.splits sum.splits if_splits dest: find_Some_mem)

subsection \<open>What the user handlers return\<close>

lemma user_create_result:
  "user_create d n e h = (d, Inl PrismaValidationError) \<or>
   user_create d n e h = (d, Inl (PrismaKnownRequestError ''P2000'')) \<or>
   user_create d n e h =
     (d\<lparr>user_seq := user_seq d + 1\<rparr>, Inl (PrismaKnownRequestError ''P2002'')) \<or>
   (\<exists>n' e'. n = Some n' \<and> e = Some e' \<and> length n' \<le> 30 \<and>
      \<not> list_ex (\<lambda>u. email u = e' \<or> username u = n') (users d) \<and>
      user_create d n e h =
        (d\<lparr>users := users d @ [\<lparr>user_id = user_seq d + 1, email = e', username = n',
                                  password = h, passwordResetToken = None,
                                  passwordResetTokenExpiry = None\<rparr>],
           user_seq := user_seq d + 1\<rparr>,
         Inr \<lparr>user_id = user_seq d + 1, email = e', username = n',
              password = h, passwordResetToken = None,
              passwordResetTokenExpiry = None\<rparr>))"
  by (simp add: user_create_def Let_def split: option.splits)

lemma register_result:
  "asyncRegisterUser E W d n e pw =
     (d\<lparr>user_seq := user_seq d + 1\<rparr>, NextError 400 ''Email or username already exists.'') \<or>
   asyncRegisterUser E W d n e pw = (d, NextError 400 ''Please include all fields.'') \<or>
   (\<exists>n' e' p' u. n = Some n' \<and> e = Some e' \<and> pw = Some p' \<and> length n' \<le> 30 \<and>
      u = \<lparr>user_id = user_seq d + 1, email = e', username = n',
           password = bcrypt_hash E p' (salt W),
           passwordResetToken = None, passwordResetTokenExpiry = None\<rparr> \<and>
      \<not> list_ex (\<lambda>x. email x = e' \<or> username x = n') (users d) \<and>
      asyncRegisterUser E W d n e pw =
        (d\<lparr>users := users d @ [u], user_seq := user_seq d + 1\<rparr>,
         Json 201 (Some (auth_json E W u))))"
proof (cases pw)
  case None
  then show ?thesis
    by (simp add: asyncRegisterUser_def bcrypt_hash_js_def register_catch_def)
next
  case (Some p)
  then have r: "asyncRegisterUser E W d n e pw =
      (case user_create d n e (bcrypt_hash E p (salt W)) of
         (d', Inl x) \<Rightarrow> (d', register_catch x)
       | (d', Inr u) \<Rightarrow> (d', Json 201 (Some (auth_json E W u))))"
    by (simp add: asyncRegisterUser_def bcrypt_hash_js_def)
  from user_create_result [of d n e "bcrypt_hash E p (salt W)"] show ?thesis
  proof (elim disjE exE conjE)
    assume "user_create d n e (bcrypt_hash E p (salt W)) = (d, Inl PrismaValidationError)"
    then show ?thesis by (simp add: r register_catch_def)
  next
    assume "user_create d n e (bcrypt_hash E p (salt W)) =
      (d, Inl (PrismaKnownRequestError ''P2000''))"
    then show ?thesis by (simp add: r register_catch_def)
  next
    assume "user_create d n e (bcrypt_hash E p (salt W)) =
      (d\<lparr>user_seq := user_seq d + 1\<rparr>, Inl (PrismaKnownRequestError ''P2002''))"
    then show ?thesis by (simp add: r register_catch_def)
  next
    fix n' e'
    assume "n = Some n'" "e = Some e'" "length n' \<le> 30"
      "\<not> list_ex (\<lambda>u. email u = e' \<or> username u = n') (users d)"
      "user_create d n e (bcrypt_hash E p (salt W)) =
        (d\<lparr>users := users d @ [\<lparr>user_id = user_seq d + 1, email = e', username = n',
                                  password = bcrypt_hash E p (salt W),
                                  passwordResetToken = None,
                                  passwordResetTokenExpiry = None\<rparr>],
           user_seq := user_seq d + 1\<rparr>,
         Inr \<lparr>user_id = user_seq d + 1, email = e', username = n',
              password = bcrypt_hash E p (salt W), passwordResetToken = None,
              passwordResetTokenExpiry = None\<rparr>)"
    then show ?thesis using Some r by simp
  qed
qed

lemma login_result:
  "asyncLoginUser E W d n pw = (d', Json s b) \<Longrightarrow>
     \<exists>u \<in> set (users d). s = 200 \<and> b = Some (auth_json E W u)"
  by (auto simp: asyncLoginUser_def user_findUnique_username_def bcrypt_compare_js_def
      split: option.splits sum.splits if_splits dest: find_Some_mem)

lemma me_result:
  "asyncGetUserData d ru = (d', Json s b) \<Longrightarrow>
     \<exists>u \<in> set (users d). s = 200 \<and> b = Some (me_json u)"
  by (auto simp: asyncGetUserData_def user_findUnique_id_def
      split: option.splits sum.splits dest: find_Some_mem)

lemma forgot_result:
  "fst (asyncForgotPassword W d e) = d \<or>
   (\<exists>k t. fst (asyncForgotPassword W d e) =
      d\<lparr>users := map (\<lambda>x. if Some (email x) = e
                           then x\<lparr>passwordResetToken := Some k,
                                  passwordResetTokenExpiry := Some t\<rparr>
                           else x) (users d)\<rparr>)"
  by (auto simp: asyncForgotPassword_def user_findUnique_email_def user_update_def
      user_set_forgot Let_def split: option.splits sum.splits cong: if_cong)

lemma reset_result:
  "fst (asyncResetPassword E W d token npw) = d \<or>
   (\<exists>h i. fst (asyncResetPassword E W d token npw) =
      d\<lparr>users := map (\<lambda>x. if user_id x = i
                           then x\<lparr>password := h, passwordResetToken := None,
                                  passwordResetTokenExpiry := None\<rparr>
                           else x) (users d)\<rparr>)"
  by (auto simp: asyncResetPassword_def bcrypt_hash_js_def user_update_def
      user_set_reset split: option.splits sum.splits cong: if_cong)

subsection \<open>The example codec reads back what it writes\<close>

lemma digit_value_char: "digit_value (digit_char n) = Some (n mod 10)"
proof -
  have "n mod 10 < 10" by simp
  then have "n mod 10 \<in> {0, 1, 2, 3, 4, 5, 6, 7, 8, 9}"
    by (simp; arith)
  then show ?thesis
    by (auto simp: digit_value_def digit_char_def)
qed

lemma digit_char_plain: "digit_char n \<noteq> CHR ''.'' \<and> digit_char n \<noteq> CHR ''-''"
  using digit_value_char [of n] by (auto simp: digit_value_def)

lemma parse_digits_append:
  "parse_digits a (xs @ ys) =
     (case parse_digits a xs of None \<Rightarrow> None | Some b \<Rightarrow> parse_digits b ys)"
  by (induction xs arbitrary: a) (auto split: option.splits)

lemma parse_dec_digits: "parse_digits 0 (dec_digits n) = Some n"
proof (induction n rule: dec_digits.induct)
  case (1 n)
  show ?case
  proof (cases "n < 10")
    case True
    then show ?thesis
      by (subst dec_digits.simps) (simp add: digit_value_char)
  next
    case False
    with 1 have "parse_digits 0 (dec_digits (n div 10)) = Some (n div 10)" by simp
    with False show ?thesis
      by (subst dec_digits.simps) (simp add: parse_digits_append digit_value_char)
  qed
qed

lemma dec_digits_plain: "c \<in> set (dec_digits n) \<Longrightarrow> c \<noteq> CHR ''.'' \<and> c \<noteq> CHR ''-''"
proof (induction n rule: dec_digits.induct)
  case (1 n)
  show ?case
  proof (cases "n < 10")
    case True
    with 1(2) show ?thesis
      by (subst (asm) dec_digits.simps) (simp add: digit_char_plain)
  next
    case False
    with 1 show ?thesis
      by (subst (asm) (2) dec_digits.simps) (auto simp: digit_char_plain)
  qed
qed

lemma dec_digits_not_Nil: "dec_digits n \<noteq> []"
  by (subst dec_digits.simps) simp

lemma parse_nat_dec_digits: "parse_nat (dec_digits n) = Some n"
  by (simp add: parse_nat_def dec_digits_not_Nil parse_dec_digits)

lemma parse_show_int: "parse_int (show_int i) = Some i"
proof (cases "i < 0")
  case True
  then show ?thesis
    by (simp add: parse_int_def show_int_def parse_nat_dec_digits)
next
  case False
  obtain c r where cr: "dec_digits (nat i) = c # r"
    using dec_digits_not_Nil [of "nat i"] by (cases "dec_digits (nat i)") auto
  then have "c \<noteq> CHR ''-''"
    using dec_digits_plain [of c "nat i"] by simp
  with False cr parse_nat_dec_digits [of "nat i"] show ?thesis
    by (simp add: parse_int_def show_int_def)
qed

lemma show_int_plain: "c \<in> set (show_int i) \<Longrightarrow> c \<noteq> CHR ''.''"
  using dec_digits_plain by (auto simp: show_int_def split: if_splits)

lemma show_int_not_Nil: "show_int i \<noteq> []"
  by (simp add: show_int_def dec_digits_not_Nil)

lemma field_show: "field (show_int i @ CHR ''.'' # s) = show_int i"
  unfolding field_def using show_int_plain [of _ i]
  by (subst takeWhile_append2) auto

lemma after_field_show: "after_field (show_int i @ CHR ''.'' # s) = s"
  unfolding after_field_def using show_int_plain [of _ i]
  by (subst dropWhile_append2) auto

lemma example_round_trip: "example_decode (example_encode j) = Some j"
  by (simp add: example_decode_def example_encode_def field_show after_field_show parse_show_int)

lemma example_encode_not_Nil: "example_encode j \<noteq> []"
  by (simp add: example_encode_def show_int_not_Nil)

lemma example_codec:
  "jwt_decode example_env (jwt_encode example_env j) = Some j"
  "jwt_encode example_env j \<noteq> []"
  by (simp_all add: example_env_def example_round_trip example_encode_not_Nil)

subsection \<open>The concrete instance, evaluated\<close>

lemma example_digits:
  "dec_digits 2 = ''2''"
  "dec_digits 4 = ''4''"
  "dec_digits 7 = ''7''"
  "dec_digits 1700000000 = ''1700000000''"
  "dec_digits 1702592000 = ''1702592000''"
  by (simp_all add: dec_digits.simps digit_char_def)

lemma example_token:
  "generateJWT example_env example_io 7 = ''7.1700000000.1702592000.terc3s7''"
  by (simp add: generateJWT_def jwt_sign_def jwt_issue_def example_env_def example_io_def
      example_encode_def show_int_def example_digits digit_char_def)

lemma example_issue:
  "jwt_issue example_env 7 (JWT_SECRET example_env) (30 * 24 * 60 * 60) (now example_io) =
     \<lparr>jwt_id = 7, jwt_iat = 1700000000, jwt_exp = 1702592000, jwt_sig = ''terc3s7''\<rparr>"
  by (simp add: jwt_issue_def example_env_def example_io_def digit_char_def)

lemma example_decode_token:
  "jwt_decode example_env ''7.1700000000.1702592000.terc3s7'' =
     Some \<lparr>jwt_id = 7, jwt_iat = 1700000000, jwt_exp = 1702592000, jwt_sig = ''terc3s7''\<rparr>"
  by (simp add: example_env_def example_decode_def field_def after_field_def parse_int_def
      parse_nat_def digit_value_def)

lemma example_verify:
  "jwt_verify example_env (Some ''7.1700000000.1702592000.terc3s7'')
     (JWT_SECRET example_env) (now example_io) =
   Inr \<lparr>jwt_id = 7, jwt_iat = 1700000000, jwt_exp = 1702592000, jwt_sig = ''terc3s7''\<rparr>"
  by (simp add: jwt_verify_def example_decode_token)
     (simp add: example_env_def example_io_def digit_char_def)

lemma example_parseInt:
  "parseInt example_env ''abc'' = None"
  "parseInt example_env ''1'' = Some 1"
  "parseInt example_env ''7'' = Some 7"
  "parseInt example_env ''2147483648'' = Some 2147483648"
  by (simp_all add: example_env_def parse_int_def parse_nat_def digit_value_def)

lemma example_rows:
  "users example_db = [alice, bob, carol]"
  "user_id alice = 1" "user_id bob = 2" "user_id carol = 3"
  "email alice = ''alice@example.org''" "email bob = ''bob@example.org''"
  "email carol = ''carol@example.org''"
  "username alice = ''alice''" "username bob = ''bob''" "username carol = ''carol''"
  "passwordResetToken alice = Some ''00ff''" "passwordResetToken bob = None"
  "passwordResetToken carol = Some ''abcd''"
  "passwordResetTokenExpiry alice = Some 1700000300000"
  "passwordResetTokenExpiry bob = None"
  "passwordResetTokenExpiry carol = Some 1600000000000"
  by (simp_all add: example_db_def alice_def bob_def carol_def)

lemma example_world:
  "now example_io = 1700000000123" "salt example_io = ''salt''" "mail_ok example_io = False"
  "bcrypt_hash example_env = (\<lambda>p s. s @ rev p)" "JWT_SECRET example_env = ''s3cret''"
  by (simp_all add: example_io_def example_env_def)

lemma example_bytes:
  "toString_hex (randomBytes example_io 32) =
     ''030a11181f262d343b424950575e656c737a81888f969da4abb2b9c0c7ced5dc''"
  by (simp add: randomBytes_def example_io_def toString_hex_def hex_of_byte_def hex_digit_def
      upt_rec)

lemma user_seq_example: "user_seq example_db = 3"
  by (simp add: example_db_def)

lemma example_tokens:
  "generateJWT example_env example_io 2 = ''2.1700000000.1702592000.terc3s2''"
  "generateJWT example_env example_io 4 = ''4.1700000000.1702592000.terc3s4''"
  by (simp_all add: generateJWT_def jwt_sign_def jwt_issue_def example_env_def example_io_def
      example_encode_def show_int_def example_digits digit_char_def)

lemma example_verify_bob:
  "jwt_verify example_env (Some ''2.1700000000.1702592000.terc3s2'')
     (JWT_SECRET example_env) (now example_io) =
   Inr \<lparr>jwt_id = 2, jwt_iat = 1700000000, jwt_exp = 1702592000, jwt_sig = ''terc3s2''\<rparr>"
  by (simp add: jwt_verify_def example_env_def example_io_def example_decode_def field_def
      after_field_def parse_int_def parse_nat_def digit_value_def digit_char_def)

section \<open>The claims\<close>

subsection \<open>C1: the ownership guard of get, update and delete\<close>

text \<open>
  What holds: for an authenticated user (the middleware attached an identity \<open>u\<close>) and
  a route parameter that \<^verbatim>\<open>parseInt\<close> reads as a number of the 32-bit column, no
  post with that id gives the error with status 404 and the store as before; a post whose
  \<open>created_by\<close> differs from the id of \<open>u\<close> gives the "not authorized" error (status
  401 in the source) and the store as before; the user's own post is read (200), updated
  (200) or deleted (204). The one update the store refuses, a title of more than 255
  characters, is logged by the handler, which still answers 200, with the post as it was.
\<close>

lemma ownership_guard_int4:
  assumes "parseInt E txt = Some i" and "int4 i"
  shows
  "(post_row d i = None \<longrightarrow>
      asyncGetPost E d (Some u) txt =
        (d, NextError 404 (''No post with id '' @ txt @ '' was found'')) \<and>
      asyncUpdatePost E d (Some u) txt t b =
        (d, NextError 404 (''No post with id '' @ txt @ '' was found'')) \<and>
      asyncDeletePost E d (Some u) txt =
        (d, NextError 404 (''No post with id '' @ txt @ '' was found''))) \<and>
   (\<forall>p. post_row d i = Some p \<and> created_by p \<noteq> ident_id u \<longrightarrow>
      asyncGetPost E d (Some u) txt =
        (d, NextError 401 ''You are not authorized to view this post'') \<and>
      asyncUpdatePost E d (Some u) txt t b =
        (d, NextError 401 ''You are not authorized to update this post'') \<and>
      asyncDeletePost E d (Some u) txt =
        (d, NextError 401 ''You are not authorized to delete this post'')) \<and>
   (\<forall>p. post_row d i = Some p \<and> created_by p = ident_id u \<longrightarrow>
      asyncGetPost E d (Some u) txt = (d, Json 200 (Some (post_json p))) \<and>
      asyncUpdatePost E d (Some u) txt t b =
        (if (case t of None \<Rightarrow> False | Some s \<Rightarrow> 255 < length s)
         then (d, Json 200 (Some (post_json p)))
         else (d\<lparr>posts := map (\<lambda>q. if post_id q = i then post_set t b q else q) (posts d)\<rparr>,
               Json 200 (Some (post_json (post_set t b p))))) \<and>
      asyncDeletePost E d (Some u) txt =
        (d\<lparr>posts := filter (\<lambda>q. post_id q \<noteq> i) (posts d)\<rparr>, Json 204 None))"
  using assms
  by (simp add: asyncGetPost_def asyncUpdatePost_def asyncDeletePost_def req_user_id_def
      post_findUnique_def where_id_def post_update_def post_delete_def)

text \<open>
  When the lookup throws, because the route parameter is not a number or the number does
  not fit the column, each handler logs the exception and answers with its success status
  and no body, whoever asks.
\<close>

lemma post_lookup_throws:
  assumes "parseInt E txt = None \<or> (\<exists>i. parseInt E txt = Some i \<and> \<not> int4 i)"
  shows "asyncGetPost E d ru txt = (d, Json 200 None) \<and>
         asyncUpdatePost E d ru txt t b = (d, Json 200 None) \<and>
         asyncDeletePost E d ru txt = (d, Json 204 None)"
  using assms
  by (auto simp: asyncGetPost_def asyncUpdatePost_def asyncDeletePost_def
      post_findUnique_def where_id_def)

text \<open>
  C1. The claim: for every get, update or delete of a post by an authenticated user, no
  post with the given id means the error NotFound with status 404 (and another owner's
  post means Forbidden, the user's own post success). The source does so for an id of the
  32-bit column (\<open>ownership_guard_int4\<close> above). For \<^verbatim>\<open>/posts/abc\<close> and for
  \<^verbatim>\<open>/posts/2147483648\<close>, where no post has the given id either, the lookup throws,
  the \<^verbatim>\<open>catch\<close> block only logs, and the handlers answer 200, 200 and 204 with no
  body; for the id 7, which no post has, the get handler passes the error with status
  404.
\<close>

theorem post_id_outside_column:
  "parseInt example_env ''abc'' = None \<and>
   asyncGetPost example_env example_db (Some (select_identity alice)) ''abc'' =
     (example_db, Json 200 None) \<and>
   asyncUpdatePost example_env example_db (Some (select_identity alice)) ''abc''
       (Some ''Hi'') None =
     (example_db, Json 200 None) \<and>
   asyncDeletePost example_env example_db (Some (select_identity alice)) ''abc'' =
     (example_db, Json 204 None) \<and>
   parseInt example_env ''2147483648'' = Some 2147483648 \<and>
   post_row example_db 2147483648 = None \<and>
   asyncGetPost example_env example_db (Some (select_identity alice)) ''2147483648'' =
     (example_db, Json 200 None) \<and>
   asyncUpdatePost example_env example_db (Some (select_identity alice)) ''2147483648''
       (Some ''Hi'') None =
     (example_db, Json 200 None) \<and>
   asyncDeletePost example_env example_db (Some (select_identity alice)) ''2147483648'' =
     (example_db, Json 204 None) \<and>
   parseInt example_env ''7'' = Some 7 \<and>
   post_row example_db 7 = None \<and>
   asyncGetPost example_env example_db (Some (select_identity alice)) ''7'' =
     (example_db, NextError 404 ''No post with id 7 was found'')"
proof -
  have rows: "post_row example_db 2147483648 = None" "post_row example_db 7 = None"
    by (simp_all add: post_row_def example_db_def hello_def)
  have "\<not> int4 2147483648" "int4 7"
    by (simp_all add: int4_def)
  then show ?thesis
    using rows
      post_lookup_throws [of example_env "''abc''" example_db "Some (select_identity alice)"
        "Some ''Hi''" None]
      post_lookup_throws [of example_env "''2147483648''" example_db
        "Some (select_identity alice)" "Some ''Hi''" None]
      ownership_guard_int4 [of example_env "''7''" 7 example_db "select_identity alice"
        "Some ''Hi''" None]
    by (simp add: example_parseInt)
qed

text \<open>
  On the example store, within the column: post 1 is Alice's, so Bob is refused and the
  store keeps the post, and Alice reads it, retitles it and deletes it.
\<close>

lemma ownership_guard_example:
  "asyncUpdatePost example_env example_db (Some (select_identity bob)) ''1'' (Some ''Mine'') None =
     (example_db, NextError 401 ''You are not authorized to update this post'') \<and>
   asyncDeletePost example_env example_db (Some (select_identity bob)) ''1'' =
     (example_db, NextError 401 ''You are not authorized to delete this post'') \<and>
   asyncGetPost example_env example_db (Some (select_identity alice)) ''1'' =
     (example_db, Json 200 (Some (post_json hello))) \<and>
   asyncUpdatePost example_env example_db (Some (select_identity alice)) ''1'' (Some ''Hi'') None =
     (example_db\<lparr>posts := [hello\<lparr>title := ''Hi''\<rparr>]\<rparr>,
      Json 200 (Some (post_json (hello\<lparr>title := ''Hi''\<rparr>)))) \<and>
   asyncDeletePost example_env example_db (Some (select_identity alice)) ''1'' =
     (example_db\<lparr>posts := []\<rparr>, Json 204 None)"
proof -
  have some: "post_row example_db 1 = Some hello"
    by (simp add: post_row_def example_db_def hello_def)
  have other: "created_by hello \<noteq> ident_id (select_identity bob)"
    by (simp add: hello_def bob_def select_identity_def)
  have own: "created_by hello = ident_id (select_identity alice)"
    by (simp add: hello_def alice_def select_identity_def)
  have rows: "posts example_db = [hello]" "post_id hello = 1"
    by (simp_all add: example_db_def hello_def)
  have "int4 1" by (simp add: int4_def)
  then show ?thesis
    using some other own
      ownership_guard_int4 [of example_env "''1''" 1 example_db "select_identity bob"
        "Some ''Mine''" None]
      ownership_guard_int4 [of example_env "''1''" 1 example_db "select_identity alice"
        "Some ''Hi''" None]
    by (simp add: rows post_set_def example_parseInt)
qed

subsection \<open>C2: one dispatch for each request\<close>

text \<open>
  C2. The claim: for every request the middleware does exactly one of two things, it
  invokes the handler of the route or it propagates an error, also when the header is the
  bare \<^verbatim>\<open>Bearer \<close> and the token extracted from it is empty. On that header, and on
  every header that goes on with a second space after \<^verbatim>\<open>Bearer \<close>, the source
  propagates an error twice: the second element of the split header is the empty string,
  \<^verbatim>\<open>jwt.verify\<close> rejects it, the \<^verbatim>\<open>catch\<close> block calls \<^verbatim>\<open>next\<close> with the
  Unauthorized error, and since nothing returns there, the test \<^verbatim>\<open>!token\<close> after the
  block holds as well and calls \<^verbatim>\<open>next\<close> again, with the missing-credential error.
  (\<open>protect_calls\<close> above lists all the middleware can do: the handler is never
  invoked together with an error, and some call is always made; the two errors in a row
  are the one case of two calls.)
\<close>

theorem protect_bare_bearer:
  "protect E W d (Some ''Bearer '') =
     (None,
      [NextErr 401 ''Unauthorized'',
       NextErr 401 ''Request is missing required authentication credential.'']) \<and>
   protect E W d (Some (''Bearer  '' @ rest)) =
     (None,
      [NextErr 401 ''Unauthorized'',
       NextErr 401 ''Request is missing required authentication credential.''])"
  by (simp add: protect_def startsWith_def jwt_verify_def falsy_def)


subsection \<open>C3: a verified token whose user is gone\<close>

text \<open>
  C3. The claim: when the token verifies and its user id matches no stored user, the
  middleware fails with Unauthorized and does not invoke the handler. The source assigns
  the result of the lookup to \<^verbatim>\<open>req.user\<close> and calls \<^verbatim>\<open>next()\<close> without looking
  at it (\<open>protect_verified\<close> above). Evaluated: the token issued for user 7 verifies,
  the example store has no user 7, and the handler is invoked with no identity.
\<close>

theorem protect_deleted_subject:
  "jwt_verify example_env (Some (generateJWT example_env example_io 7))
     (JWT_SECRET example_env) (now example_io) =
     Inr \<lparr>jwt_id = 7, jwt_iat = 1700000000, jwt_exp = 1702592000, jwt_sig = ''terc3s7''\<rparr> \<and>
   user_findUnique_id example_db 7 = None \<and>
   protect example_env example_io example_db
     (Some (''Bearer '' @ generateJWT example_env example_io 7)) = (None, [Next])"
proof -
  have v: "jwt_verify example_env (Some (generateJWT example_env example_io 7))
     (JWT_SECRET example_env) (now example_io) =
     Inr \<lparr>jwt_id = 7, jwt_iat = 1700000000, jwt_exp = 1702592000, jwt_sig = ''terc3s7''\<rparr>"
    by (simp add: example_token example_verify)
  have u: "user_findUnique_id example_db 7 = None"
    by (simp add: user_findUnique_id_def example_db_def alice_def bob_def carol_def)
  have "CHR '' '' \<notin> set (generateJWT example_env example_io 7)"
    by (simp add: example_token)
  from protect_verified [OF v this, of example_db] u v show ?thesis
    by simp
qed

text \<open>
  What the handler of \<^verbatim>\<open>GET /posts/:id\<close> then does: reading \<^verbatim>\<open>req.user.id\<close>
  throws inside \<^verbatim>\<open>try\<close>, the exception is logged, and the post of another user is
  sent.
\<close>

lemma null_identity_reads_post:
  "asyncGetPost example_env example_db None ''1'' =
     (example_db, Json 200 (Some (post_json hello)))"
  by (simp add: asyncGetPost_def post_findUnique_def where_id_def int4_def post_row_def
      req_user_id_def example_db_def hello_def example_parseInt)

subsection \<open>C4: issuing and verifying a token\<close>

text \<open>
  C4. For every user id: the token that \<^verbatim>\<open>generateJWT\<close> issues for it, verified at
  the instant of issuance, yields that id; the token carries an expiry thirty days (2592000
  seconds) after its issued-at instant; verification of that token fails as expired
  exactly from the second of the expiry on, so at every instant thirty days or more after
  issuance. The two hypotheses are about the library alone: reading the text of any
  credential gives the credential back, and no such text is empty.
\<close>

theorem token_issue_verify:
  assumes "\<And>j. jwt_decode E (jwt_encode E j) = Some j"
    and "\<And>j. jwt_encode E j \<noteq> []"
  shows "(\<exists>j. jwt_verify E (Some (generateJWT E W uid)) (JWT_SECRET E) (now W) = Inr j \<and>
              jwt_id j = uid \<and> jwt_iat j = now W div 1000 \<and>
              jwt_exp j = jwt_iat j + 30 * 24 * 60 * 60) \<and>
         (\<forall>t. jwt_verify E (Some (generateJWT E W uid)) (JWT_SECRET E) t =
                (if now W div 1000 + 30 * 24 * 60 * 60 \<le> t div 1000 then Inl TokenExpiredError
                 else Inr (jwt_issue E uid (JWT_SECRET E) (30 * 24 * 60 * 60) (now W)))) \<and>
         (\<forall>t. now W + 30 * 24 * 60 * 60 * 1000 \<le> t \<longrightarrow>
                jwt_verify E (Some (generateJWT E W uid)) (JWT_SECRET E) t = Inl TokenExpiredError)"
proof -
  let ?j = "jwt_issue E uid (JWT_SECRET E) (30 * 24 * 60 * 60) (now W)"
  have issued: "generateJWT E W uid = jwt_encode E ?j"
    by (simp add: generateJWT_def jwt_sign_def)
  have fields: "jwt_id ?j = uid" "jwt_iat ?j = now W div 1000"
    "jwt_exp ?j = now W div 1000 + 30 * 24 * 60 * 60"
    "jwt_sig ?j = hmac E (JWT_SECRET E) (jwt_id ?j, jwt_iat ?j, jwt_exp ?j)"
    by (simp_all add: jwt_issue_def Let_def)
  have at: "jwt_verify E (Some (generateJWT E W uid)) (JWT_SECRET E) t =
                (if now W div 1000 + 30 * 24 * 60 * 60 \<le> t div 1000 then Inl TokenExpiredError
                 else Inr ?j)" for t
    unfolding issued using assms [of ?j] fields by (simp add: jwt_verify_def)
  have "jwt_verify E (Some (generateJWT E W uid)) (JWT_SECRET E) (now W) = Inr ?j"
    unfolding at by simp
  moreover have "jwt_verify E (Some (generateJWT E W uid)) (JWT_SECRET E) t = Inl TokenExpiredError"
    if "now W + 30 * 24 * 60 * 60 * 1000 \<le> t" for t
    unfolding at using expiry_elapsed [OF that] by simp
  ultimately show ?thesis
    using at fields(1,2,3) by simp
qed

text \<open>
  For the example server, whose codec reads back what it writes: the token of user 7
  issued at 1700000000123 ms verifies then and one second before its expiry, and is
  expired thirty days after issuance.
\<close>

theorem token_issue_verify_witness:
  "(\<forall>j. jwt_decode example_env (jwt_encode example_env j) = Some j) \<and>
   (\<forall>j. jwt_encode example_env j \<noteq> []) \<and>
   generateJWT example_env example_io 7 = ''7.1700000000.1702592000.terc3s7'' \<and>
   (\<exists>j. jwt_verify example_env (Some (generateJWT example_env example_io 7))
          (JWT_SECRET example_env) (now example_io) = Inr j \<and>
        jwt_id j = 7 \<and> jwt_iat j = 1700000000 \<and> jwt_exp j = 1702592000) \<and>
   jwt_verify example_env (Some (generateJWT example_env example_io 7))
     (JWT_SECRET example_env) (now example_io + 30 * 24 * 60 * 60 * 1000 - 1000) =
     Inr \<lparr>jwt_id = 7, jwt_iat = 1700000000, jwt_exp = 1702592000, jwt_sig = ''terc3s7''\<rparr> \<and>
   jwt_verify example_env (Some (generateJWT example_env example_io 7))
     (JWT_SECRET example_env) (now example_io + 30 * 24 * 60 * 60 * 1000) =
     Inl TokenExpiredError"
proof -
  have t: "now example_io = 1700000000123"
    by (simp add: example_io_def)
  note main = token_issue_verify [of example_env example_io 7, OF example_codec,
      unfolded example_issue]
  from main have every:
    "jwt_verify example_env (Some (generateJWT example_env example_io 7))
       (JWT_SECRET example_env) t =
     (if now example_io div 1000 + 30 * 24 * 60 * 60 \<le> t div 1000 then Inl TokenExpiredError
      else Inr \<lparr>jwt_id = 7, jwt_iat = 1700000000, jwt_exp = 1702592000,
                jwt_sig = ''terc3s7''\<rparr>)" for t
    by blast
  have "generateJWT example_env example_io 7 = ''7.1700000000.1702592000.terc3s7''"
    by (rule example_token)
  moreover have "\<exists>j. jwt_verify example_env (Some (generateJWT example_env example_io 7))
          (JWT_SECRET example_env) (now example_io) = Inr j \<and>
        jwt_id j = 7 \<and> jwt_iat j = 1700000000 \<and> jwt_exp j = 1702592000"
    by (simp add: every t)
  moreover have "jwt_verify example_env (Some (generateJWT example_env example_io 7))
     (JWT_SECRET example_env) (now example_io + 30 * 24 * 60 * 60 * 1000 - 1000) =
     Inr \<lparr>jwt_id = 7, jwt_iat = 1700000000, jwt_exp = 1702592000, jwt_sig = ''terc3s7''\<rparr>"
    by (simp add: every t)
  moreover have "jwt_verify example_env (Some (generateJWT example_env example_io 7))
     (JWT_SECRET example_env) (now example_io + 30 * 24 * 60 * 60 * 1000) =
     Inl TokenExpiredError"
    by (simp add: every t)
  ultimately show ?thesis
    using example_codec by blast
qed

subsection \<open>C5: completing a password reset\<close>

text \<open>
  C5. A completion with a new password and a token that some row holds with an expiry not
  before now: the first such row \<open>u\<close> is found, and the one update writes the hash of the
  new password and null into both reset fields of the row with the id of \<open>u\<close>; the
  answer is 200. A completion with a token that no row holds with an expiry not before now
  (no row holds it, or the row that holds it expired): the error "Invalid or expired
  token." with status 400 goes to \<^verbatim>\<open>next\<close>, the same in both cases, and the store
  is as before.
\<close>

theorem reset_completion:
  "(list_ex (reset_matches token (now W)) (users d) \<longrightarrow>
      (\<exists>u. user_findFirst_reset d token (now W) = Some u \<and> u \<in> set (users d) \<and>
           passwordResetToken u = Some token \<and>
           (\<exists>t. passwordResetTokenExpiry u = Some t \<and> now W \<le> t) \<and>
           asyncResetPassword E W d token (Some pw) =
             (d\<lparr>users :=
                  map (\<lambda>x. if user_id x = user_id u
                           then x\<lparr>password := bcrypt_hash E pw (salt W),
                                  passwordResetToken := None,
                                  passwordResetTokenExpiry := None\<rparr>
                           else x) (users d)\<rparr>,
              Json 200 (Some reset_msg)))) \<and>
   (\<not> list_ex (reset_matches token (now W)) (users d) \<longrightarrow>
      asyncResetPassword E W d token newPassword =
        (d, NextError 400 ''Invalid or expired token.''))"
proof (intro conjI impI)
  assume "list_ex (reset_matches token (now W)) (users d)"
  then obtain u where u: "find (reset_matches token (now W)) (users d) = Some u"
      "u \<in> set (users d)" "reset_matches token (now W) u"
    using find_list_ex by blast
  then have ex: "list_ex (\<lambda>x. user_id x = user_id u) (users d)"
    by (auto simp: list_ex_iff)
  have "asyncResetPassword E W d token (Some pw) =
          (d\<lparr>users :=
               map (\<lambda>x. if user_id x = user_id u
                        then x\<lparr>password := bcrypt_hash E pw (salt W),
                               passwordResetToken := None,
                               passwordResetTokenExpiry := None\<rparr>
                        else x) (users d)\<rparr>,
           Json 200 (Some reset_msg))"
    using u(1) ex
    by (simp add: asyncResetPassword_def user_findFirst_reset_def bcrypt_hash_js_def
        user_update_def user_set_reset)
  moreover have "passwordResetToken u = Some token"
    "\<exists>t. passwordResetTokenExpiry u = Some t \<and> now W \<le> t"
    using u(3) by (auto simp: reset_matches_def split: option.splits)
  ultimately show "\<exists>u. user_findFirst_reset d token (now W) = Some u \<and> u \<in> set (users d) \<and>
           passwordResetToken u = Some token \<and>
           (\<exists>t. passwordResetTokenExpiry u = Some t \<and> now W \<le> t) \<and>
           asyncResetPassword E W d token (Some pw) =
             (d\<lparr>users :=
                  map (\<lambda>x. if user_id x = user_id u
                           then x\<lparr>password := bcrypt_hash E pw (salt W),
                                  passwordResetToken := None,
                                  passwordResetTokenExpiry := None\<rparr>
                           else x) (users d)\<rparr>,
              Json 200 (Some reset_msg))"
    using u(1,2) by (auto simp: user_findFirst_reset_def)
next
  assume "\<not> list_ex (reset_matches token (now W)) (users d)"
  then show "asyncResetPassword E W d token newPassword =
        (d, NextError 400 ''Invalid or expired token.'')"
    by (simp add: asyncResetPassword_def user_findFirst_reset_def find_not_list_ex)
qed

text \<open>
  On the example store at the example instant: Alice's pending token resets her password
  and clears both fields; Carol's token, which expired, and a token nobody holds get the
  same error and change nothing.
\<close>

theorem reset_completion_witness:
  "list_ex (reset_matches ''00ff'' (now example_io)) (users example_db) \<and>
   asyncResetPassword example_env example_io example_db ''00ff'' (Some ''hunter2'') =
     (example_db\<lparr>users :=
        [alice\<lparr>password := ''salt2retnuh'', passwordResetToken := None,
               passwordResetTokenExpiry := None\<rparr>, bob, carol]\<rparr>,
      Json 200 (Some reset_msg)) \<and>
   \<not> list_ex (reset_matches ''abcd'' (now example_io)) (users example_db) \<and>
   asyncResetPassword example_env example_io example_db ''abcd'' (Some ''hunter2'') =
     (example_db, NextError 400 ''Invalid or expired token.'') \<and>
   \<not> list_ex (reset_matches ''beef'' (now example_io)) (users example_db) \<and>
   asyncResetPassword example_env example_io example_db ''beef'' (Some ''hunter2'') =
     (example_db, NextError 400 ''Invalid or expired token.'')"
proof -
  have valid: "list_ex (reset_matches ''00ff'' (now example_io)) (users example_db)"
    by (simp add: reset_matches_def example_rows example_world)
  have expired: "\<not> list_ex (reset_matches ''abcd'' (now example_io)) (users example_db)"
    by (simp add: reset_matches_def example_rows example_world)
  have wrong: "\<not> list_ex (reset_matches ''beef'' (now example_io)) (users example_db)"
    by (simp add: reset_matches_def example_rows example_world)
  have first: "user_findFirst_reset example_db ''00ff'' (now example_io) = Some alice"
    by (simp add: user_findFirst_reset_def reset_matches_def example_rows example_world)
  from reset_completion [of "''00ff''" example_io example_db example_env "''hunter2''" None]
    valid
  obtain u where u: "user_findFirst_reset example_db ''00ff'' (now example_io) = Some u"
    and r: "asyncResetPassword example_env example_io example_db ''00ff'' (Some ''hunter2'') =
      (example_db\<lparr>users :=
         map (\<lambda>x. if user_id x = user_id u
                  then x\<lparr>password := bcrypt_hash example_env ''hunter2'' (salt example_io),
                         passwordResetToken := None,
                         passwordResetTokenExpiry := None\<rparr>
                  else x) (users example_db)\<rparr>,
       Json 200 (Some reset_msg))"
    by blast
  from u first have "u = alice" by simp
  with r
  have "asyncResetPassword example_env example_io example_db ''00ff'' (Some ''hunter2'') =
     (example_db\<lparr>users :=
        [alice\<lparr>password := ''salt2retnuh'', passwordResetToken := None,
               passwordResetTokenExpiry := None\<rparr>, bob, carol]\<rparr>,
      Json 200 (Some reset_msg))"
    by (simp add: example_rows example_world)
  then show ?thesis
    using valid expired wrong
      reset_completion [of "''abcd''" example_io example_db example_env "''hunter2''"
        "Some ''hunter2''"]
      reset_completion [of "''beef''" example_io example_db example_env "''hunter2''"
        "Some ''hunter2''"]
    by simp
qed

subsection \<open>C6: requesting a password reset\<close>

text \<open>
  C6. A request for an email that a stored row has: the token is the hexadecimal text of
  32 bytes of the random source (64 digits, from which the 32 bytes can be read back), its
  expiry is now plus ten minutes, both are written to the rows with that email whatever
  these held before, and the answer is 200 with the message "Password reset link sent to
  your email."; the outcome is the same whether the mail transport delivers or throws. A
  request for an email that no row has passes the error with status 404 to
  \<^verbatim>\<open>next\<close> and leaves the store as it is.
\<close>

theorem reset_request:
  "(list_ex (\<lambda>u. email u = e) (users d) \<longrightarrow>
      asyncForgotPassword W d (Some e) =
        (d\<lparr>users :=
             map (\<lambda>x. if email x = e
                      then x\<lparr>passwordResetToken := Some (toString_hex (randomBytes W 32)),
                             passwordResetTokenExpiry := Some (now W + 10 * 60 * 1000)\<rparr>
                      else x) (users d)\<rparr>,
         Json 200 (Some forgot_msg))) \<and>
   (\<not> list_ex (\<lambda>u. email u = e) (users d) \<longrightarrow>
      asyncForgotPassword W d (Some e) = (d, NextError 404 ''Couldn't find your account.'')) \<and>
   asyncForgotPassword (W\<lparr>mail_ok := False\<rparr>) d (Some e) =
     asyncForgotPassword (W\<lparr>mail_ok := True\<rparr>) d (Some e) \<and>
   length (randomBytes W 32) = 32 \<and>
   length (toString_hex (randomBytes W 32)) = 64 \<and>
   set (toString_hex (randomBytes W 32)) \<subseteq> set ''0123456789abcdef'' \<and>
   from_hex (toString_hex (randomBytes W 32)) = randomBytes W 32"
proof (intro conjI impI)
  assume a: "list_ex (\<lambda>u. email u = e) (users d)"
  then obtain u where "find (\<lambda>u. email u = e) (users d) = Some u"
    using find_list_ex by blast
  with a show "asyncForgotPassword W d (Some e) =
        (d\<lparr>users :=
             map (\<lambda>x. if email x = e
                      then x\<lparr>passwordResetToken := Some (toString_hex (randomBytes W 32)),
                             passwordResetTokenExpiry := Some (now W + 10 * 60 * 1000)\<rparr>
                      else x) (users d)\<rparr>,
         Json 200 (Some forgot_msg))"
    by (simp add: asyncForgotPassword_def user_findUnique_email_def user_update_def
        user_set_forgot asyncSendEmail_def)
next
  assume "\<not> list_ex (\<lambda>u. email u = e) (users d)"
  then show "asyncForgotPassword W d (Some e) = (d, NextError 404 ''Couldn't find your account.'')"
    by (simp add: asyncForgotPassword_def user_findUnique_email_def find_not_list_ex)
next
  show "asyncForgotPassword (W\<lparr>mail_ok := False\<rparr>) d (Some e) =
     asyncForgotPassword (W\<lparr>mail_ok := True\<rparr>) d (Some e)"
    by (simp add: asyncForgotPassword_def asyncSendEmail_def randomBytes_def
        split: sum.splits option.splits)
next
  show "length (randomBytes W 32) = 32" by (rule length_randomBytes)
next
  show "length (toString_hex (randomBytes W 32)) = 64"
    by (simp add: length_toString_hex length_randomBytes)
next
  show "set (toString_hex (randomBytes W 32)) \<subseteq> set ''0123456789abcdef''"
    by (rule set_toString_hex)
next
  show "from_hex (toString_hex (randomBytes W 32)) = randomBytes W 32"
    by (rule from_hex_toString_hex)
qed

text \<open>
  On the example store, with a mail transport that throws: Alice's pending token is
  replaced and the answer is the success message; an unknown email is not found.
\<close>

theorem reset_request_witness:
  "list_ex (\<lambda>u. email u = ''alice@example.org'') (users example_db) \<and>
   mail_ok example_io = False \<and>
   asyncForgotPassword example_io example_db (Some ''alice@example.org'') =
     (example_db\<lparr>users :=
        [alice\<lparr>passwordResetToken :=
                 Some ''030a11181f262d343b424950575e656c737a81888f969da4abb2b9c0c7ced5dc'',
               passwordResetTokenExpiry := Some 1700000600123\<rparr>, bob, carol]\<rparr>,
      Json 200 (Some forgot_msg)) \<and>
   \<not> list_ex (\<lambda>u. email u = ''dave@example.org'') (users example_db) \<and>
   asyncForgotPassword example_io example_db (Some ''dave@example.org'') =
     (example_db, NextError 404 ''Couldn't find your account.'')"
proof -
  have known: "list_ex (\<lambda>u. email u = ''alice@example.org'') (users example_db)"
    by (simp add: example_rows)
  have unknown: "\<not> list_ex (\<lambda>u. email u = ''dave@example.org'') (users example_db)"
    by (simp add: example_rows)
  from reset_request [of "''alice@example.org''" example_db example_io] known
  have "asyncForgotPassword example_io example_db (Some ''alice@example.org'') =
     (example_db\<lparr>users :=
        map (\<lambda>x. if email x = ''alice@example.org''
                 then x\<lparr>passwordResetToken := Some (toString_hex (randomBytes example_io 32)),
                        passwordResetTokenExpiry := Some (now example_io + 10 * 60 * 1000)\<rparr>
                 else x) (users example_db)\<rparr>,
      Json 200 (Some forgot_msg))"
    by blast
  then have "asyncForgotPassword example_io example_db (Some ''alice@example.org'') =
     (example_db\<lparr>users :=
        [alice\<lparr>passwordResetToken :=
                 Some ''030a11181f262d343b424950575e656c737a81888f969da4abb2b9c0c7ced5dc'',
               passwordResetTokenExpiry := Some 1700000600123\<rparr>, bob, carol]\<rparr>,
      Json 200 (Some forgot_msg))"
    by (simp add: example_bytes example_rows example_world)
  moreover from reset_request [of "''dave@example.org''" example_db example_io] unknown
  have "asyncForgotPassword example_io example_db (Some ''dave@example.org'') =
     (example_db, NextError 404 ''Couldn't find your account.'')"
    by blast
  ultimately show ?thesis
    using known unknown by (simp add: example_world)
qed

subsection \<open>C7: registering with an email or a username that is taken\<close>

text \<open>
  C7, as the claim states it, fails: it speaks of every registration attempt whose email or
  username is taken. An attempt without a password fails in \<^verbatim>\<open>bcrypt.hash\<close> before
  the store is asked, so the \<^verbatim>\<open>catch\<close> block answers "Please include all fields."
  and not the conflict error, although the email is Alice's. An attempt without a username
  is refused by the client of the store, and one with a username of 31 characters by the
  column width, both before the unique indexes are consulted, with the same answer.
\<close>

theorem duplicate_registration_counterexample:
  "''alice@example.org'' \<in> set (map email (users example_db)) \<and>
   snd (asyncRegisterUser example_env example_io example_db
       (Some ''dave'') (Some ''alice@example.org'') None) =
     NextError 400 ''Please include all fields.'' \<and>
   snd (asyncRegisterUser example_env example_io example_db
       (Some ''dave'') (Some ''alice@example.org'') None) \<noteq>
     NextError 400 ''Email or username already exists.'' \<and>
   snd (asyncRegisterUser example_env example_io example_db
       None (Some ''alice@example.org'') (Some ''pw'')) =
     NextError 400 ''Please include all fields.'' \<and>
   snd (asyncRegisterUser example_env example_io example_db
       (Some ''a-username-of-thirty-one-chars!'') (Some ''alice@example.org'') (Some ''pw'')) =
     NextError 400 ''Please include all fields.''"
  by (simp add: asyncRegisterUser_def bcrypt_hash_js_def user_create_def register_catch_def
      example_rows)

text \<open>
  C7, amended. For every registration attempt that gives a password, an email and a
  username of at most 30 characters: when the email belongs to a stored user, or the
  username does, the error "Email or username already exists." with status 400 goes to
  \<^verbatim>\<open>next\<close> and the rows of the users are as before. Every registration attempt that
  ends in an error, whichever, has status 400 and leaves the rows of the users as before.
  The store keeps emails distinct and usernames distinct: a store where they are still is
  after any registration attempt.
\<close>

theorem duplicate_registration:
  "(length n \<le> 30 \<and>
    (list_ex (\<lambda>u. email u = e) (users d) \<or> list_ex (\<lambda>u. username u = n) (users d)) \<longrightarrow>
      snd (asyncRegisterUser E W d (Some n) (Some e) (Some pw)) =
        NextError 400 ''Email or username already exists.'' \<and>
      users (fst (asyncRegisterUser E W d (Some n) (Some e) (Some pw))) = users d) \<and>
   (\<forall>s m. snd (asyncRegisterUser E W d n' e' pw') = NextError s m \<longrightarrow>
      s = 400 \<and> users (fst (asyncRegisterUser E W d n' e' pw')) = users d) \<and>
   (users_unique d \<longrightarrow> users_unique (fst (asyncRegisterUser E W d n' e' pw')))"
proof (intro conjI)
  show "length n \<le> 30 \<and>
    (list_ex (\<lambda>u. email u = e) (users d) \<or> list_ex (\<lambda>u. username u = n) (users d)) \<longrightarrow>
      snd (asyncRegisterUser E W d (Some n) (Some e) (Some pw)) =
        NextError 400 ''Email or username already exists.'' \<and>
      users (fst (asyncRegisterUser E W d (Some n) (Some e) (Some pw))) = users d"
  proof
    assume "length n \<le> 30 \<and>
      (list_ex (\<lambda>u. email u = e) (users d) \<or> list_ex (\<lambda>u. username u = n) (users d))"
    then have "length n \<le> 30" "list_ex (\<lambda>u. email u = e \<or> username u = n) (users d)"
      by (auto simp: list_ex_iff)
    then show "snd (asyncRegisterUser E W d (Some n) (Some e) (Some pw)) =
        NextError 400 ''Email or username already exists.'' \<and>
      users (fst (asyncRegisterUser E W d (Some n) (Some e) (Some pw))) = users d"
      by (simp add: asyncRegisterUser_def bcrypt_hash_js_def user_create_def register_catch_def)
  qed
next
  show "\<forall>s m. snd (asyncRegisterUser E W d n' e' pw') = NextError s m \<longrightarrow>
      s = 400 \<and> users (fst (asyncRegisterUser E W d n' e' pw')) = users d"
    using register_result [of E W d n' e' pw'] by (elim disjE exE conjE) simp_all
next
  show "users_unique d \<longrightarrow> users_unique (fst (asyncRegisterUser E W d n' e' pw'))"
    using register_result [of E W d n' e' pw']
    by (elim disjE exE conjE) (auto simp: users_unique_def list_ex_iff)
qed

text \<open>
  On the example store: Alice's email with a new username, and Bob's username with a new
  email, are both refused with the conflict error and leave the three rows as they are
  (the refused insert takes the id 4, so the next row would get 5); the attempt without
  a password is refused with status 400 and changes nothing; a new user is appended with
  the next id.
\<close>

theorem duplicate_registration_witness:
  "length ''dave'' \<le> 30 \<and>
   list_ex (\<lambda>u. email u = ''alice@example.org'') (users example_db) \<and>
   asyncRegisterUser example_env example_io example_db
       (Some ''dave'') (Some ''alice@example.org'') (Some ''pw'') =
     (example_db\<lparr>user_seq := 4\<rparr>, NextError 400 ''Email or username already exists.'') \<and>
   users (fst (asyncRegisterUser example_env example_io example_db
       (Some ''dave'') (Some ''alice@example.org'') (Some ''pw''))) = users example_db \<and>
   length ''bob'' \<le> 30 \<and>
   list_ex (\<lambda>u. username u = ''bob'') (users example_db) \<and>
   asyncRegisterUser example_env example_io example_db
       (Some ''bob'') (Some ''robert@example.org'') (Some ''pw'') =
     (example_db\<lparr>user_seq := 4\<rparr>, NextError 400 ''Email or username already exists.'') \<and>
   users (fst (asyncRegisterUser example_env example_io example_db
       (Some ''bob'') (Some ''robert@example.org'') (Some ''pw''))) = users example_db \<and>
   asyncRegisterUser example_env example_io example_db
       (Some ''dave'') (Some ''alice@example.org'') None =
     (example_db, NextError 400 ''Please include all fields.'') \<and>
   users_unique example_db \<and>
   users_unique (fst (asyncRegisterUser example_env example_io example_db
       (Some ''dave'') (Some ''dave@example.org'') (Some ''pw''))) \<and>
   users (fst (asyncRegisterUser example_env example_io example_db
       (Some ''dave'') (Some ''dave@example.org'') (Some ''pw''))) =
     users example_db @
     [\<lparr>user_id = 4, email = ''dave@example.org'', username = ''dave'', password = ''saltwp'',
       passwordResetToken = None, passwordResetTokenExpiry = None\<rparr>]"
proof -
  have l: "length ''dave'' \<le> 30" "length ''bob'' \<le> 30"
    by simp_all
  have e: "list_ex (\<lambda>u. email u = ''alice@example.org'') (users example_db)"
    and n: "list_ex (\<lambda>u. username u = ''bob'') (users example_db)"
    by (simp_all add: example_rows)
  have u: "users_unique example_db"
    by (simp add: users_unique_def example_rows)
  have taken: "asyncRegisterUser example_env example_io example_db
       (Some ''dave'') (Some ''alice@example.org'') (Some ''pw'') =
     (example_db\<lparr>user_seq := 4\<rparr>, NextError 400 ''Email or username already exists.'')"
    "asyncRegisterUser example_env example_io example_db
       (Some ''bob'') (Some ''robert@example.org'') (Some ''pw'') =
     (example_db\<lparr>user_seq := 4\<rparr>, NextError 400 ''Email or username already exists.'')"
    by (simp_all add: asyncRegisterUser_def bcrypt_hash_js_def user_create_def
        register_catch_def example_rows user_seq_example)
  have absent: "asyncRegisterUser example_env example_io example_db
       (Some ''dave'') (Some ''alice@example.org'') None =
     (example_db, NextError 400 ''Please include all fields.'')"
    by (simp add: asyncRegisterUser_def bcrypt_hash_js_def register_catch_def)
  have new: "users (fst (asyncRegisterUser example_env example_io example_db
       (Some ''dave'') (Some ''dave@example.org'') (Some ''pw''))) =
     users example_db @
     [\<lparr>user_id = 4, email = ''dave@example.org'', username = ''dave'', password = ''saltwp'',
       passwordResetToken = None, passwordResetTokenExpiry = None\<rparr>]"
    by (simp add: asyncRegisterUser_def bcrypt_hash_js_def user_create_def example_rows
        example_world Let_def user_seq_example)
  have same1: "users (fst (asyncRegisterUser example_env example_io example_db
       (Some ''dave'') (Some ''alice@example.org'') (Some ''pw''))) = users example_db"
    using l(1) e
      duplicate_registration [of "''dave''" "''alice@example.org''" example_db example_env
        example_io "''pw''" "Some ''dave''" "Some ''alice@example.org''" None]
    by blast
  have same2: "users (fst (asyncRegisterUser example_env example_io example_db
       (Some ''bob'') (Some ''robert@example.org'') (Some ''pw''))) = users example_db"
    using l(2) n
      duplicate_registration [of "''bob''" "''robert@example.org''" example_db example_env
        example_io "''pw''" "Some ''dave''" "Some ''dave@example.org''" "Some ''pw''"]
    by blast
  have kept: "users_unique (fst (asyncRegisterUser example_env example_io example_db
       (Some ''dave'') (Some ''dave@example.org'') (Some ''pw'')))"
    using u
      duplicate_registration [of "''bob''" "''robert@example.org''" example_db example_env
        example_io "''pw''" "Some ''dave''" "Some ''dave@example.org''" "Some ''pw''"]
    by blast
  show ?thesis
    by (intro conjI) (rule l e n u taken absent new same1 same2 kept)+
qed

subsection \<open>C8: creating a post without a title\<close>

text \<open>
  C8. The claim: creating a post with a missing title fails with status 400 and creates no
  post. The source creates no post, and the status it sets on the error is 404. (The
  validation error of the registration, "Please include all fields.", has status 400.)
\<close>

theorem create_post_without_title:
  "asyncCreatePost d t0 (Some u) None b = (d, NextError 404 ''Please include a title field'') \<and>
   asyncCreatePost d t0 (Some u) (Some []) b = (d, NextError 404 ''Please include a title field'')"
  by (simp add: asyncCreatePost_def falsy_def)

subsection \<open>C9: the reset token and its expiry are set together\<close>

text \<open>
  C9. In a store where every user row has the reset token and its expiry both set or both
  null, the same holds after a registration, after a reset request and after a reset
  completion, whatever their inputs. Every row of the store after a registration is a row
  from before or has both fields null; after a reset request, a row from before or one
  with both fields set; after a reset completion, a row from before or one with both
  fields null.
\<close>

theorem reset_fields_paired:
  assumes "users_reset_paired d"
  shows "users_reset_paired (fst (asyncRegisterUser E W d n e pw)) \<and>
         users_reset_paired (fst (asyncForgotPassword W d em)) \<and>
         users_reset_paired (fst (asyncResetPassword E W d token npw)) \<and>
         (\<forall>x \<in> set (users (fst (asyncRegisterUser E W d n e pw))).
            x \<in> set (users d) \<or>
            passwordResetToken x = None \<and> passwordResetTokenExpiry x = None) \<and>
         (\<forall>x \<in> set (users (fst (asyncForgotPassword W d em))).
            x \<in> set (users d) \<or>
            passwordResetToken x \<noteq> None \<and> passwordResetTokenExpiry x \<noteq> None) \<and>
         (\<forall>x \<in> set (users (fst (asyncResetPassword E W d token npw))).
            x \<in> set (users d) \<or>
            passwordResetToken x = None \<and> passwordResetTokenExpiry x = None)"
proof -
  have reg: "\<forall>x \<in> set (users (fst (asyncRegisterUser E W d n e pw))).
            x \<in> set (users d) \<or>
            passwordResetToken x = None \<and> passwordResetTokenExpiry x = None"
    using register_result [of E W d n e pw] by (elim disjE exE conjE) auto
  have forgot: "\<forall>x \<in> set (users (fst (asyncForgotPassword W d em))).
            x \<in> set (users d) \<or>
            passwordResetToken x \<noteq> None \<and> passwordResetTokenExpiry x \<noteq> None"
    using forgot_result [of W d em] by (elim disjE exE) auto
  have reset: "\<forall>x \<in> set (users (fst (asyncResetPassword E W d token npw))).
            x \<in> set (users d) \<or>
            passwordResetToken x = None \<and> passwordResetTokenExpiry x = None"
    using reset_result [of E W d token npw] by (elim disjE exE) auto
  have old: "\<forall>x \<in> set (users d). reset_paired x"
    using assms by (simp add: users_reset_paired_def list_all_iff)
  have "users_reset_paired (fst (asyncRegisterUser E W d n e pw))"
    unfolding users_reset_paired_def list_all_iff
    using reg old by (auto simp: reset_paired_def)
  moreover have "users_reset_paired (fst (asyncForgotPassword W d em))"
    unfolding users_reset_paired_def list_all_iff
    using forgot old by (auto simp: reset_paired_def)
  moreover have "users_reset_paired (fst (asyncResetPassword E W d token npw))"
    unfolding users_reset_paired_def list_all_iff
    using reset old by (auto simp: reset_paired_def)
  ultimately show ?thesis
    using reg forgot reset by blast
qed

text \<open>
  On the example store: the invariant holds, and it holds after registering Dave, after
  Bob's reset request (which sets both of Bob's fields) and after Alice's reset completion
  (which clears both of hers).
\<close>

theorem reset_fields_paired_witness:
  "users_reset_paired example_db \<and>
   users_reset_paired (fst (asyncRegisterUser example_env example_io example_db
       (Some ''dave'') (Some ''dave@example.org'') (Some ''pw''))) \<and>
   users_reset_paired (fst (asyncForgotPassword example_io example_db
       (Some ''bob@example.org''))) \<and>
   users_reset_paired (fst (asyncResetPassword example_env example_io example_db ''00ff''
       (Some ''hunter2''))) \<and>
   map passwordResetToken (users (fst (asyncForgotPassword example_io example_db
       (Some ''bob@example.org'')))) =
     [Some ''00ff'',
      Some ''030a11181f262d343b424950575e656c737a81888f969da4abb2b9c0c7ced5dc'',
      Some ''abcd''] \<and>
   map passwordResetTokenExpiry (users (fst (asyncForgotPassword example_io example_db
       (Some ''bob@example.org'')))) =
     [Some 1700000300000, Some 1700000600123, Some 1600000000000] \<and>
   map passwordResetToken (users (fst (asyncResetPassword example_env example_io example_db
       ''00ff'' (Some ''hunter2'')))) = [None, None, Some ''abcd''] \<and>
   map passwordResetTokenExpiry (users (fst (asyncResetPassword example_env example_io
       example_db ''00ff'' (Some ''hunter2'')))) = [None, None, Some 1600000000000]"
proof -
  have p: "users_reset_paired example_db"
    by (simp add: users_reset_paired_def reset_paired_def example_rows)
  have forgot: "users (fst (asyncForgotPassword example_io example_db
       (Some ''bob@example.org''))) =
     [alice,
      bob\<lparr>passwordResetToken :=
            Some ''030a11181f262d343b424950575e656c737a81888f969da4abb2b9c0c7ced5dc'',
          passwordResetTokenExpiry := Some 1700000600123\<rparr>,
      carol]"
    by (simp add: asyncForgotPassword_def user_findUnique_email_def user_update_def
        user_set_forgot asyncSendEmail_def example_rows example_world example_bytes)
  have reset: "users (fst (asyncResetPassword example_env example_io example_db ''00ff''
       (Some ''hunter2''))) =
     [alice\<lparr>password := ''salt2retnuh'', passwordResetToken := None,
            passwordResetTokenExpiry := None\<rparr>, bob, carol]"
    by (simp add: asyncResetPassword_def user_findFirst_reset_def reset_matches_def
        bcrypt_hash_js_def user_update_def user_set_reset example_rows example_world)
  from reset_fields_paired [OF p, of example_env example_io "Some ''dave''"
      "Some ''dave@example.org''" "Some ''pw''" "Some ''bob@example.org''" "''00ff''"
      "Some ''hunter2''"] p
  show ?thesis
    by (simp add: forgot reset example_rows)
qed

subsection \<open>C10: what the responses and the attached identity contain\<close>

text \<open>
  C10. Whenever the registration answers with a body, the status is 201 and the body is
  the object with exactly the keys id, username, email and token, taken from a row of the
  store after it; whenever the login answers with a body, the status is 200 and the body
  is that object for a stored row; whenever the current-user handler answers, the status is
  200 and the body is the object with exactly the keys id, username and email of a stored
  row; whenever the middleware attaches an identity, it is the id, the username and the
  email of a stored row. None of them has a key for the password hash.
\<close>

theorem responses_without_password:
  "(\<forall>d' s b. asyncRegisterUser E W d n e pw = (d', Json s b) \<longrightarrow>
       (\<exists>u \<in> set (users d'). s = 201 \<and> b = Some (auth_json E W u))) \<and>
   (\<forall>d' s b. asyncLoginUser E W d ln lpw = (d', Json s b) \<longrightarrow>
       (\<exists>u \<in> set (users d). s = 200 \<and> b = Some (auth_json E W u))) \<and>
   (\<forall>d' s b. asyncGetUserData d ru = (d', Json s b) \<longrightarrow>
       (\<exists>u \<in> set (users d). s = 200 \<and> b = Some (me_json u))) \<and>
   (\<forall>i calls. protect E W d a = (Some i, calls) \<longrightarrow>
       (\<exists>u \<in> set (users d).
          i = \<lparr>ident_id = user_id u, ident_username = username u, ident_email = email u\<rparr>)) \<and>
   auth_json E W v =
     JObj [(''id'', JNum (user_id v)), (''username'', JStr (username v)),
           (''email'', JStr (email v)), (''token'', JStr (generateJWT E W (user_id v)))] \<and>
   keys (auth_json E W v) = [''id'', ''username'', ''email'', ''token''] \<and>
   me_json v =
     JObj [(''id'', JNum (user_id v)), (''username'', JStr (username v)),
           (''email'', JStr (email v))] \<and>
   keys (me_json v) = [''id'', ''username'', ''email'']"
proof -
  have "\<exists>u \<in> set (users d'). s = 201 \<and> b = Some (auth_json E W u)"
    if "asyncRegisterUser E W d n e pw = (d', Json s b)" for d' s b
    using register_result [of E W d n e pw] that by (elim disjE exE conjE) auto
  then show ?thesis
    using login_result [of E W d ln lpw] me_result [of d ru] protect_identity [of E W d a]
    by (simp add: auth_json_def me_json_def)
qed

text \<open>
  On the example store: Dave registers, Bob logs in, Alice asks for her data, and Bob's
  token passes the middleware.
\<close>

theorem responses_without_password_witness:
  "asyncRegisterUser example_env example_io example_db
       (Some ''dave'') (Some ''dave@example.org'') (Some ''pw'') =
     (example_db\<lparr>users := users example_db @
         [\<lparr>user_id = 4, email = ''dave@example.org'', username = ''dave'',
           password = ''saltwp'', passwordResetToken = None,
           passwordResetTokenExpiry = None\<rparr>],
        user_seq := 4\<rparr>,
      Json 201 (Some (JObj [(''id'', JNum 4), (''username'', JStr ''dave''),
                            (''email'', JStr ''dave@example.org''),
                            (''token'', JStr ''4.1700000000.1702592000.terc3s4'')]))) \<and>
   asyncLoginUser example_env example_io example_db (Some ''bob'') (Some ''secret'') =
     (example_db,
      Json 200 (Some (JObj [(''id'', JNum 2), (''username'', JStr ''bob''),
                            (''email'', JStr ''bob@example.org''),
                            (''token'', JStr ''2.1700000000.1702592000.terc3s2'')]))) \<and>
   asyncGetUserData example_db (Some (select_identity alice)) =
     (example_db,
      Json 200 (Some (JObj [(''id'', JNum 1), (''username'', JStr ''alice''),
                            (''email'', JStr ''alice@example.org'')]))) \<and>
   protect example_env example_io example_db (Some ''Bearer 2.1700000000.1702592000.terc3s2'') =
     (Some \<lparr>ident_id = 2, ident_username = ''bob'', ident_email = ''bob@example.org''\<rparr>,
      [Next]) \<and>
   keys (auth_json example_env example_io bob) = [''id'', ''username'', ''email'', ''token''] \<and>
   keys (me_json alice) = [''id'', ''username'', ''email'']"
proof -
  have reg: "asyncRegisterUser example_env example_io example_db
       (Some ''dave'') (Some ''dave@example.org'') (Some ''pw'') =
     (example_db\<lparr>users := users example_db @
         [\<lparr>user_id = 4, email = ''dave@example.org'', username = ''dave'',
           password = ''saltwp'', passwordResetToken = None,
           passwordResetTokenExpiry = None\<rparr>],
        user_seq := 4\<rparr>,
      Json 201 (Some (JObj [(''id'', JNum 4), (''username'', JStr ''dave''),
                            (''email'', JStr ''dave@example.org''),
                            (''token'', JStr ''4.1700000000.1702592000.terc3s4'')])))"
    by (simp add: asyncRegisterUser_def bcrypt_hash_js_def user_create_def example_rows
        example_world Let_def user_seq_example auth_json_def example_tokens)
  have login: "asyncLoginUser example_env example_io example_db (Some ''bob'')
       (Some ''secret'') =
     (example_db,
      Json 200 (Some (JObj [(''id'', JNum 2), (''username'', JStr ''bob''),
                            (''email'', JStr ''bob@example.org''),
                            (''token'', JStr ''2.1700000000.1702592000.terc3s2'')])))"
    by (simp add: asyncLoginUser_def user_findUnique_username_def bcrypt_compare_js_def
        example_rows auth_json_def example_tokens)
       (simp add: bob_def example_env_def)
  have me: "asyncGetUserData example_db (Some (select_identity alice)) =
     (example_db,
      Json 200 (Some (JObj [(''id'', JNum 1), (''username'', JStr ''alice''),
                            (''email'', JStr ''alice@example.org'')])))"
    by (simp add: asyncGetUserData_def req_user_id_def select_identity_def
        user_findUnique_id_def example_rows me_json_def)
  have "CHR '' '' \<notin> set ''2.1700000000.1702592000.terc3s2''"
    by simp
  from protect_verified [OF example_verify_bob this, of example_db]
  have mw: "protect example_env example_io example_db
       (Some ''Bearer 2.1700000000.1702592000.terc3s2'') =
     (Some \<lparr>ident_id = 2, ident_username = ''bob'', ident_email = ''bob@example.org''\<rparr>,
      [Next])"
    by (simp add: user_findUnique_id_def select_identity_def example_rows)
  show ?thesis
    using reg login me mw
      responses_without_password [of example_env example_io example_db "Some ''dave''"
        "Some ''dave@example.org''" "Some ''pw''" "Some ''bob''" "Some ''secret''"
        "Some (select_identity alice)" "Some ''Bearer 2.1700000000.1702592000.terc3s2''" bob]
      responses_without_password [of example_env example_io example_db "Some ''dave''"
        "Some ''dave@example.org''" "Some ''pw''" "Some ''bob''" "Some ''secret''"
        "Some (select_identity alice)" "Some ''Bearer 2.1700000000.1702592000.terc3s2''" alice]
    by simp
qed

end
